theory Spec2Isabelle
  imports Complex_Main "HOL-Library.Sublist"
begin

section \<open>The chat endpoint of the beauty-store assistant\<close>

text \<open>
  The repository holds two near-duplicate implementations of the chat endpoint
  (both inside \<^verbatim>\<open>src/app/api/admin/settings/route.ts\<close>): a stateless one
  (lines 48--648) and one that persists the conversation history (lines 648--1328).
  The parts that are textually identical are modelled once; where the two differ
  (similarity threshold, filter predicate, product card, history) the definitions take
  the variant as a parameter.

  Conventions of the embedding:
  \<^item> A JavaScript string is a \<open>string\<close> holding the UTF-8 bytes of its text. On
    well-formed text \<open>includes\<close>, \<open>split\<close> at an ASCII separator and equality give on
    the bytes what they give on the code units; \<open>trim\<close> removes the byte sequences of
    every white space and line terminator of ECMAScript; \<open>toLowerCase\<close> maps the ASCII
    letters and leaves the other bytes as they are; \<open>substring(0, 100)\<close> counts bytes.
  \<^item> JavaScript numbers (scores, prices, counts) are exact rationals; the rounding of
    IEEE doubles is not modelled.
  \<^item> \<open>null\<close>/\<open>undefined\<close> of an optional field is \<open>None\<close>.
  \<^item> An exception is a value \<open>Inl message\<close>.
\<close>

subsection \<open>String primitives\<close>

definition isDigit :: "char \<Rightarrow> bool" where
  "isDigit c = (c \<in> set ''0123456789'')"

text \<open>
  The white space and line terminators that \<open>String.prototype.trim\<close> and \<open>parseInt\<close>
  skip, each as its UTF-8 bytes: TAB, LF, VT, FF, CR, SP, U+00A0, U+1680, U+2000 to
  U+200A, U+2028, U+2029, U+202F, U+205F, U+3000 and U+FEFF.
\<close>

definition whiteSpace :: "string list" where
  "whiteSpace =
     [[CHR 0x09], [CHR 0x0A], [CHR 0x0B], [CHR 0x0C], [CHR 0x0D], [CHR 0x20],
      [CHR 0xC2, CHR 0xA0],
      [CHR 0xE1, CHR 0x9A, CHR 0x80],
      [CHR 0xE2, CHR 0x80, CHR 0x80], [CHR 0xE2, CHR 0x80, CHR 0x81],
      [CHR 0xE2, CHR 0x80, CHR 0x82], [CHR 0xE2, CHR 0x80, CHR 0x83],
      [CHR 0xE2, CHR 0x80, CHR 0x84], [CHR 0xE2, CHR 0x80, CHR 0x85],
      [CHR 0xE2, CHR 0x80, CHR 0x86], [CHR 0xE2, CHR 0x80, CHR 0x87],
      [CHR 0xE2, CHR 0x80, CHR 0x88], [CHR 0xE2, CHR 0x80, CHR 0x89],
      [CHR 0xE2, CHR 0x80, CHR 0x8A],
      [CHR 0xE2, CHR 0x80, CHR 0xA8], [CHR 0xE2, CHR 0x80, CHR 0xA9],
      [CHR 0xE2, CHR 0x80, CHR 0xAF],
      [CHR 0xE2, CHR 0x81, CHR 0x9F],
      [CHR 0xE3, CHR 0x80, CHR 0x80],
      [CHR 0xEF, CHR 0xBB, CHR 0xBF]]"

text \<open>Removing, from the front of a string, every leading occurrence of one of \<open>ws\<close>.\<close>

fun stripLeading :: "string list \<Rightarrow> string \<Rightarrow> string" where
  "stripLeading ws [] = []"
| "stripLeading ws (c # cs) =
     (case find (\<lambda>w. w \<noteq> [] \<and> prefix w (c # cs)) ws of
        Some w \<Rightarrow> stripLeading ws (drop (length w - 1) cs)
      | None \<Rightarrow> c # cs)"

definition lowerChar :: "char \<Rightarrow> char" where
  "lowerChar c =
     (case map_of (zip ''ABCDEFGHIJKLMNOPQRSTUVWXYZ'' ''abcdefghijklmnopqrstuvwxyz'') c of
        Some d \<Rightarrow> d
      | None \<Rightarrow> c)"

definition toLowerCase :: "string \<Rightarrow> string" where
  "toLowerCase s = map lowerChar s"

definition trim :: "string \<Rightarrow> string" where
  "trim s = rev (stripLeading (map rev whiteSpace) (rev (stripLeading whiteSpace s)))"

text \<open>\<open>s.includes(sub)\<close>: \<open>sub\<close> occurs in \<open>s\<close> as a contiguous block.\<close>

fun includesStr :: "string \<Rightarrow> string \<Rightarrow> bool" where
  "includesStr [] sub = (sub = [])"
| "includesStr (c # cs) sub = (prefix sub (c # cs) \<or> includesStr cs sub)"

text \<open>\<open>s.split(sep)\<close> for a one-character separator; \<open>''''.split(sep)\<close> is \<open>['''']\<close>.\<close>

fun splitStr :: "char \<Rightarrow> string \<Rightarrow> string list" where
  "splitStr sep [] = [[]]"
| "splitStr sep (c # cs) =
     (if c = sep then [] # splitStr sep cs
      else (case splitStr sep cs of
              w # ws \<Rightarrow> (c # w) # ws
            | [] \<Rightarrow> [[c]]))"

text \<open>\<open>a || b\<close> on strings: the empty string is falsy.\<close>

definition orElse :: "string \<Rightarrow> string \<Rightarrow> string" where
  "orElse a b = (if a \<noteq> [] then a else b)"

subsection \<open>parsePrice\<close>

text \<open>
  \<^verbatim>\<open>const cleaned = priceStr.replace(/[^0-9.]/g, ''); return parseFloat(cleaned) || 0;\<close>

  After the replacement only digits and dots are left, so \<open>parseFloat\<close> reads the longest
  prefix of the shape \<open>digits\<close>, \<open>digits.digits\<close>, \<open>digits.\<close> or \<open>.digits\<close>, and yields
  \<open>NaN\<close> (here \<open>None\<close>) when that prefix has no digit.
\<close>

definition digitVal :: "char \<Rightarrow> nat" where
  "digitVal c = (case map_of (zip ''0123456789'' [0, 1, 2, 3, 4, 5, 6, 7, 8, 9]) c of
                   Some d \<Rightarrow> d
                 | None \<Rightarrow> 0)"

definition digitsVal :: "string \<Rightarrow> nat" where
  "digitsVal ds = foldl (\<lambda>acc c. 10 * acc + digitVal c) 0 ds"

definition parseFloat :: "string \<Rightarrow> rat option" where
  "parseFloat s =
     (let ip = takeWhile isDigit s;
          rest = dropWhile isDigit s;
          fp = (case rest of
                  c # r \<Rightarrow> if c = CHR ''.'' then takeWhile isDigit r else []
                | [] \<Rightarrow> [])
      in if ip = [] \<and> fp = [] then None
         else Some (of_nat (digitsVal ip) + of_nat (digitsVal fp) / 10 ^ length fp))"

definition parsePrice :: "string \<Rightarrow> rat" where
  "parsePrice priceStr =
     (let cleaned = filter (\<lambda>c. isDigit c \<or> c = CHR ''.'') priceStr
      in case parseFloat cleaned of
           Some v \<Rightarrow> v
         | None \<Rightarrow> 0)"

subsection \<open>Data model\<close>

text \<open>
  A JSON value as far as the code inspects it with \<open>typeof\<close>, \<open>=== null\<close> and
  truthiness; \<open>JObject\<close> stands for any array or object.
\<close>

datatype jsval = JUndefined | JNull | JBool bool | JNum rat | JString string | JObject

fun isString :: "jsval \<Rightarrow> bool" where
  "isString (JString s) = True"
| "isString v = False"

fun strOf :: "jsval \<Rightarrow> string" where
  "strOf (JString s) = s"
| "strOf v = []"

text \<open>The two implementations of the endpoint.\<close>

datatype variant = Stateless | WithHistory

text \<open>
  \<open>interface ProductVectorMetadata\<close>. The six fields that \<open>isProductVectorMetadata\<close>
  inspects are untyped JSON; the optional fields have their declared types.
\<close>

record ProductVectorMetadata =
  md_id :: jsval
  md_handle :: jsval
  md_title :: jsval
  md_price :: jsval
  md_imageUrl :: jsval
  md_productUrl :: jsval
  md_variantId :: "string option"
  md_vendor :: "string option"
  md_productType :: "string option"
  md_tags :: "string option"

text \<open>\<open>QueryResult\<close> of the search engine; \<open>qr_id\<close> is \<open>String(r.id)\<close>.\<close>

record QueryResult =
  qr_id :: string
  qr_score :: rat
  qr_metadata :: "ProductVectorMetadata option"

text \<open>\<open>interface ProductCardResponse\<close>; only the history variant fills \<open>tags\<close>.\<close>

record ProductCardResponse =
  card_title :: string
  card_description :: string
  card_price :: string
  card_image :: "string option"
  card_landing_page :: string
  card_variantId :: string
  card_tags :: "string option"

text \<open>\<open>geminiResult\<close>, the intent, once the structure check has passed.\<close>

record GeminiResult =
  ai_understanding :: string
  search_keywords :: string
  advice :: string
  requested_product_count :: rat
  product_types :: "string list"
  usage_instructions :: "string option"
  price_filter :: "rat option"
  sort_by_price :: bool
  vendor :: string
  attributes :: "string list option"

record KeywordMappings =
  typeToKeywords :: "string \<Rightarrow> string option"
  synonyms :: "string \<Rightarrow> string list option"
  defaultComboTypes :: "string list"

text \<open>The optional \<open>filter\<close> argument of \<open>performVectorQuery\<close>.\<close>

record QueryFilter =
  f_productType :: "string option"
  f_tags :: "string option"
  f_vendor :: "string option"

text \<open>\<open>{role, text?}\<close> of the conversation history.\<close>

datatype role = User | Bot | Model

record ChatMessage =
  msg_role :: role
  msg_text :: "string option"

text \<open>
  The calls to external services, in the order the request makes them: the language
  model, a search query (text and topK), reading and writing the stored history
  (value and time-to-live in seconds).
\<close>

datatype ext_call =
    LLMCall
  | SearchCall string rat
  | HistoryRead
  | HistoryWrite "ChatMessage list" nat

text \<open>The mutable variables a request threads through its stages.\<close>

record pstate =
  searchNote :: string
  calls :: "ext_call list"

text \<open>
  The search engine: given the number of external calls the request has made so far,
  the text and topK, it throws (\<open>Inl\<close>) or answers with a list (a \<open>null\<close> answer
  is the empty list). \<open>None\<close> is the client that was never initialised.
\<close>

type_synonym VectorIndex = "(nat \<Rightarrow> string \<Rightarrow> rat \<Rightarrow> string + QueryResult list) option"

subsection \<open>Utility functions\<close>

definition isProductVectorMetadata :: "ProductVectorMetadata \<Rightarrow> bool" where
  "isProductVectorMetadata m =
     (isString (md_id m) \<and> isString (md_handle m) \<and> isString (md_title m) \<and>
      isString (md_price m) \<and> (md_imageUrl m = JNull \<or> isString (md_imageUrl m)) \<and>
      isString (md_productUrl m))"

text \<open>\<open>m.metadata && isProductVectorMetadata(m.metadata)\<close>\<close>

definition validMetadata :: "QueryResult \<Rightarrow> bool" where
  "validMetadata r =
     (case qr_metadata r of None \<Rightarrow> False | Some m \<Rightarrow> isProductVectorMetadata m)"

text \<open>Truthiness of an optional string, and \<open>x ?? \<close> the empty string.\<close>

definition truthy :: "string option \<Rightarrow> bool" where
  "truthy x = (case x of None \<Rightarrow> False | Some s \<Rightarrow> s \<noteq> [])"

definition nullish :: "string option \<Rightarrow> string" where
  "nullish x = (case x of None \<Rightarrow> [] | Some s \<Rightarrow> s)"

text \<open>
  \<^verbatim>\<open>(metadata.productType ?? '').split('>').pop()?.trim().toLowerCase() || ''\<close>
\<close>

definition normalizedType :: "ProductVectorMetadata \<Rightarrow> string" where
  "normalizedType md =
     orElse (toLowerCase (trim (last (splitStr (CHR ''>'') (nullish (md_productType md)))))) []"

definition priceOf :: "QueryResult \<Rightarrow> string" where
  \<comment> \<open>\<open>(r.metadata as ProductVectorMetadata).price\<close>, read only where the metadata is valid\<close>
  "priceOf r = (case qr_metadata r of None \<Rightarrow> [] | Some md \<Rightarrow> strOf (md_price md))"

subsection \<open>The filter predicate of performVectorQuery\<close>

definition typeMatch :: "variant \<Rightarrow> KeywordMappings \<Rightarrow> QueryFilter \<Rightarrow> ProductVectorMetadata \<Rightarrow> bool" where
  "typeMatch v km flt md =
     (if truthy (f_productType flt) then
        (let productTypeLower = toLowerCase (nullish (f_productType flt));
             metadataProductType = normalizedType md
         in case v of
              Stateless \<Rightarrow>
                (let metadataTags = toLowerCase (nullish (md_tags md));
                     metadataTitle = toLowerCase (strOf (md_title md));
                     synonymsForType = (case synonyms km productTypeLower of
                                          Some l \<Rightarrow> l | None \<Rightarrow> [])
                 in includesStr metadataProductType productTypeLower \<or>
                    includesStr metadataTags productTypeLower \<or>
                    includesStr metadataTitle productTypeLower \<or>
                    list_ex (\<lambda>syn. includesStr metadataProductType syn \<or>
                                    includesStr metadataTags syn \<or>
                                    includesStr metadataTitle syn) synonymsForType)
            | WithHistory \<Rightarrow> includesStr metadataProductType productTypeLower)
      else True)"

definition tagMatch :: "variant \<Rightarrow> QueryFilter \<Rightarrow> ProductVectorMetadata \<Rightarrow> bool" where
  "tagMatch v flt md =
     (case v of
        Stateless \<Rightarrow>
          (if truthy (f_tags flt) then
             (let filterTagsLower = toLowerCase (nullish (f_tags flt));
                  metadataTags = toLowerCase (nullish (md_tags md));
                  metadataTitle = toLowerCase (strOf (md_title md));
                  tagWords = splitStr (CHR '' '') filterTagsLower
              in list_ex (\<lambda>word. includesStr metadataTags word \<or>
                                   includesStr metadataTitle word) tagWords)
           else True)
      | WithHistory \<Rightarrow> True)"

definition vendorMatch :: "QueryFilter \<Rightarrow> ProductVectorMetadata \<Rightarrow> bool" where
  "vendorMatch flt md =
     (if truthy (f_vendor flt) then
        toLowerCase (nullish (md_vendor md)) = toLowerCase (nullish (f_vendor flt))
      else True)"

definition priceMatch :: "variant \<Rightarrow> GeminiResult \<Rightarrow> ProductVectorMetadata \<Rightarrow> bool" where
  "priceMatch v gr md =
     (case price_filter gr of
        Some pf \<Rightarrow> parsePrice (strOf (md_price md)) \<le> pf
      | None \<Rightarrow>
          (case v of
             Stateless \<Rightarrow> True
           | WithHistory \<Rightarrow>
               (if (case attributes gr of None \<Rightarrow> False | Some as \<Rightarrow> ''under $20'' \<in> set as)
                then parsePrice (strOf (md_price md)) \<le> 20
                else True)))"

definition attributeMatch :: "variant \<Rightarrow> GeminiResult \<Rightarrow> ProductVectorMetadata \<Rightarrow> bool" where
  "attributeMatch v gr md =
     (case v of
        Stateless \<Rightarrow> True
      | WithHistory \<Rightarrow>
          (case attributes gr of
             None \<Rightarrow> True
           | Some as \<Rightarrow>
               (if as \<noteq> [] then
                  list_all (\<lambda>attr. includesStr (toLowerCase (nullish (md_tags md))) attr)
                    (map toLowerCase as)
                else True)))"

definition passesFilter ::
  "variant \<Rightarrow> KeywordMappings \<Rightarrow> GeminiResult \<Rightarrow> QueryFilter \<Rightarrow> QueryResult \<Rightarrow> bool" where
  "passesFilter v km gr flt r =
     (case qr_metadata r of
        None \<Rightarrow> False
      | Some md \<Rightarrow>
          (if \<not> isProductVectorMetadata md then False
           else typeMatch v km flt md \<and> tagMatch v flt md \<and> vendorMatch flt md \<and>
                priceMatch v gr md \<and> attributeMatch v gr md))"

subsection \<open>performVectorQuery\<close>

text \<open>
  Lines 366--488 and 1044--1143. The filter callback of the history variant also assigns
  \<open>geminiResult.product_tags\<close>; that field is read only when the prompt is built,
  before any search, so the assignment is left out.
\<close>

definition issueNote :: string where
  "issueNote = CHR 0x0A # ''(Note: There was an issue searching for products.)''"

definition sortByPrice :: "QueryResult list \<Rightarrow> QueryResult list" where
  \<comment> \<open>\<open>.filter(r => r.metadata != null).sort((a, b) => parsePrice(a..price) - parsePrice(b..price))\<close>;
      \<open>Array.prototype.sort\<close> is stable\<close>
  "sortByPrice rs =
     sort_key (\<lambda>r. parsePrice (priceOf r)) (filter (\<lambda>r. qr_metadata r \<noteq> None) rs)"

definition performVectorQuery ::
  "variant \<Rightarrow> KeywordMappings \<Rightarrow> VectorIndex \<Rightarrow> GeminiResult \<Rightarrow>
   string \<Rightarrow> rat \<Rightarrow> QueryFilter \<Rightarrow> pstate \<Rightarrow> QueryResult list option \<times> pstate" where
  "performVectorQuery v km vectorIndex gr searchText k flt st =
     (case vectorIndex of
        None \<Rightarrow> (None, st)
      | Some query \<Rightarrow>
          if searchText = [] \<or> trim searchText = [] then (None, st)
          else
            (let st1 = st\<lparr>calls := calls st @ [SearchCall searchText k]\<rparr>
             in case query (length (calls st)) searchText k of
                  Inl err \<Rightarrow> (None, st1\<lparr>searchNote := issueNote\<rparr>)
                | Inr results \<Rightarrow>
                    if results = [] then (None, st1)
                    else
                      (let filtered = filter (passesFilter v km gr flt) results;
                           filteredResults =
                             (if sort_by_price gr then sortByPrice filtered else filtered)
                       in (if filteredResults \<noteq> [] then Some filteredResults else None, st1))))"

subsection \<open>Stage 1: the intent\<close>

text \<open>
  What the language model call leads to: it throws, its text is not JSON, the JSON fails
  the structure check, or the JSON passes it. The model is a function of the variable
  parts of the prompt: the trimmed query and the last four history turns.
\<close>

datatype llm_reply = CallFailed | Unparseable | InvalidStructure | Parsed GeminiResult

datatype gemini_role = RoleUser | RoleAssistant

type_synonym GeminiModel = "(string \<Rightarrow> (gemini_role \<times> string) list \<Rightarrow> llm_reply) option"

definition defaultGeminiResult :: GeminiResult where
  "defaultGeminiResult =
     \<lparr>ai_understanding = ''Unable to interpret query intent.'',
      search_keywords = [],
      advice = ''Sorry, I had trouble understanding your request.'',
      requested_product_count = 1,
      product_types = [],
      usage_instructions = None,
      price_filter = None,
      sort_by_price = False,
      vendor = [],
      attributes = None\<rparr>"

definition geminiHistory :: "ChatMessage list \<Rightarrow> (gemini_role \<times> string) list" where
  "geminiHistory history =
     map (\<lambda>msg. (if msg_role msg = Bot \<or> msg_role msg = Model then RoleAssistant else RoleUser,
                  nullish (msg_text msg)))
       (filter (\<lambda>msg. truthy (msg_text msg) \<and> trim (nullish (msg_text msg)) \<noteq> []) history)"

text \<open>\<open>xs.slice(-n)\<close> for a positive literal \<open>n\<close>.\<close>

definition lastN :: "nat \<Rightarrow> 'a list \<Rightarrow> 'a list" where
  "lastN n xs = drop (length xs - n) xs"

text \<open>\<open>x || d\<close> on numbers (\<open>NaN\<close> does not occur in parsed JSON).\<close>

definition numOr :: "rat \<Rightarrow> rat \<Rightarrow> rat" where
  "numOr x d = (if x = 0 then d else x)"

text \<open>The adjustment of \<open>requested_product_count\<close> (lines 334--345 and 1012--1023).\<close>

definition adjustCount :: "KeywordMappings \<Rightarrow> string \<Rightarrow> GeminiResult \<Rightarrow> GeminiResult" where
  "adjustCount km trimmedQuery parsed =
     (let q = toLowerCase trimmedQuery in
      if length (product_types parsed) > 0 then
        parsed\<lparr>requested_product_count := of_nat (length (product_types parsed))\<rparr>
      else if includesStr q ''set'' \<or> includesStr q ''combo'' then
        (let pts = (if length (defaultComboTypes km) > 0 then defaultComboTypes km
                    else [''cleanser'', ''moisturizer'', ''treatment''])
         in parsed\<lparr>product_types := pts, requested_product_count := of_nat (length pts)\<rparr>)
      else if includesStr q ''top 4 cheapest'' then
        parsed\<lparr>requested_product_count := 4\<rparr>
      else if includesStr q ''list'' then
        parsed\<lparr>requested_product_count := min (numOr (requested_product_count parsed) 10) 10\<rparr>
      else parsed)"

definition getUnderstanding ::
  "KeywordMappings \<Rightarrow> GeminiModel \<Rightarrow> string \<Rightarrow> ChatMessage list \<Rightarrow> pstate \<Rightarrow>
   GeminiResult \<times> pstate" where
  "getUnderstanding km geminiModel trimmedQuery history st =
     (case geminiModel of
        None \<Rightarrow> (defaultGeminiResult, st)
      | Some generateContent \<Rightarrow>
          (let st1 = st\<lparr>calls := calls st @ [LLMCall]\<rparr>
           in case generateContent trimmedQuery (lastN 4 (geminiHistory history)) of
                Parsed parsed \<Rightarrow> (adjustCount km trimmedQuery parsed, st1)
              | CallFailed \<Rightarrow> (defaultGeminiResult, st1)
              | Unparseable \<Rightarrow> (defaultGeminiResult, st1)
              | InvalidStructure \<Rightarrow> (defaultGeminiResult, st1)))"

subsection \<open>Stage 2: the search\<close>

definition SIMILARITY_THRESHOLD :: "variant \<Rightarrow> rat" where
  "SIMILARITY_THRESHOLD v = (case v of Stateless \<Rightarrow> 14 / 10 | WithHistory \<Rightarrow> 70 / 100)"

definition requestedCount :: "GeminiResult \<Rightarrow> rat" where
  "requestedCount gr = max 1 (numOr (requested_product_count gr) 1)"

definition topK :: "GeminiResult \<Rightarrow> rat" where
  "topK gr = max (requestedCount gr * 2) 10"

datatype stage = StageNone | MultiTypeQuery | AIKeywords | DirectQuery | FallbackRelatedProducts

definition vendorOnly :: "GeminiResult \<Rightarrow> QueryFilter" where
  "vendorOnly gr = \<lparr>f_productType = None, f_tags = None, f_vendor = Some (vendor gr)\<rparr>"

definition hasResults :: "QueryResult list option \<Rightarrow> bool" where
  \<comment> \<open>the negation of \<open>!results || results.length === 0\<close>\<close>
  "hasResults r = (case r of None \<Rightarrow> False | Some rs \<Rightarrow> rs \<noteq> [])"

definition aboveThreshold :: "variant \<Rightarrow> QueryResult list \<Rightarrow> bool" where
  \<comment> \<open>\<open>topMatches.some(m => m.score >= SIMILARITY_THRESHOLD)\<close>\<close>
  "aboveThreshold v ms = list_ex (\<lambda>m. qr_score m \<ge> SIMILARITY_THRESHOLD v) ms"

text \<open>The three queries tried for one product type (lines 498--519 and 1153--1174).\<close>

definition queryForType ::
  "variant \<Rightarrow> KeywordMappings \<Rightarrow> VectorIndex \<Rightarrow> GeminiResult \<Rightarrow> string \<Rightarrow> string \<Rightarrow> pstate \<Rightarrow>
   QueryResult list option \<times> pstate" where
  "queryForType v km vectorIndex gr trimmedQuery productType st =
     (let searchKeywords =
            orElse (orElse (nullish (typeToKeywords km (toLowerCase productType)))
                           (search_keywords gr)) trimmedQuery
      in case performVectorQuery v km vectorIndex gr searchKeywords (topK gr)
                \<lparr>f_productType = Some productType, f_tags = Some productType,
                 f_vendor = Some (vendor gr)\<rparr> st of
           (r1, st1) \<Rightarrow>
             if hasResults r1 then (r1, st1)
             else
               (case performVectorQuery v km vectorIndex gr searchKeywords (topK gr)
                       \<lparr>f_productType = None, f_tags = Some productType,
                        f_vendor = Some (vendor gr)\<rparr> st1 of
                  (r2, st2) \<Rightarrow>
                    if hasResults r2 then (r2, st2)
                    else performVectorQuery v km vectorIndex gr productType (topK gr)
                           (vendorOnly gr) st2))"

text \<open>
  One turn of the loop over \<open>product_types\<close>: the accumulator is \<open>topMatches\<close>, the set
  \<open>usedProductIds\<close> and the request state.
\<close>

definition typePass ::
  "variant \<Rightarrow> KeywordMappings \<Rightarrow> VectorIndex \<Rightarrow> GeminiResult \<Rightarrow> string \<Rightarrow> string \<Rightarrow>
   QueryResult list \<times> string set \<times> pstate \<Rightarrow> QueryResult list \<times> string set \<times> pstate" where
  "typePass v km vectorIndex gr trimmedQuery productType acc =
     (case acc of
        (topMatches, usedProductIds, st) \<Rightarrow>
          (case queryForType v km vectorIndex gr trimmedQuery productType st of
             (None, st1) \<Rightarrow> (topMatches, usedProductIds, st1)
           | (Some results, st1) \<Rightarrow>
               if length results > 0 then
                 (let newResults = filter (\<lambda>r. qr_id r \<notin> usedProductIds) results
                  in (topMatches @ take (if sort_by_price gr then 4 else 1) newResults,
                      usedProductIds \<union> set (map qr_id newResults),
                      st1))
               else (topMatches, usedProductIds, st1)))"

fun multiTypeLoop ::
  "variant \<Rightarrow> KeywordMappings \<Rightarrow> VectorIndex \<Rightarrow> GeminiResult \<Rightarrow> string \<Rightarrow> string list \<Rightarrow>
   QueryResult list \<times> string set \<times> pstate \<Rightarrow> QueryResult list \<times> string set \<times> pstate" where
  "multiTypeLoop v km vectorIndex gr trimmedQuery [] acc = acc"
| "multiTypeLoop v km vectorIndex gr trimmedQuery (productType # rest) acc =
     multiTypeLoop v km vectorIndex gr trimmedQuery rest
       (typePass v km vectorIndex gr trimmedQuery productType acc)"

text \<open>The path without product types (lines 530--555 and 1185--1210).\<close>

definition singleIntentPath ::
  "variant \<Rightarrow> KeywordMappings \<Rightarrow> VectorIndex \<Rightarrow> GeminiResult \<Rightarrow> string \<Rightarrow> pstate \<Rightarrow>
   QueryResult list \<times> stage \<times> pstate" where
  "singleIntentPath v km vectorIndex gr trimmedQuery st =
     (case (if search_keywords gr \<noteq> [] \<and> trim (search_keywords gr) \<noteq> [] then
              (case performVectorQuery v km vectorIndex gr (search_keywords gr) (topK gr)
                      (vendorOnly gr) st of
                 (Some results, st1) \<Rightarrow> (results, AIKeywords, st1)
               | (None, st1) \<Rightarrow> ([], StageNone, st1))
            else ([], StageNone, st)) of
        (topMatches, searchStageUsed, st1) \<Rightarrow>
          if of_nat (length topMatches) < requestedCount gr \<or> \<not> aboveThreshold v topMatches then
            (case performVectorQuery v km vectorIndex gr trimmedQuery (topK gr)
                    (vendorOnly gr) st1 of
               (Some directResults, st2) \<Rightarrow> (directResults, DirectQuery, st2)
             | (None, st2) \<Rightarrow> (topMatches, searchStageUsed, st2))
          else (topMatches, searchStageUsed, st1))"

text \<open>\<open>xs.join(' ')\<close>\<close>

fun joinStr :: "string \<Rightarrow> string list \<Rightarrow> string" where
  "joinStr sep [] = []"
| "joinStr sep [x] = x"
| "joinStr sep (x # y # ys) = x @ sep @ joinStr sep (y # ys)"

definition relatedNote :: string where
  "relatedNote = CHR 0x0A #
     ''(Sorry, we couldn't find exact matches for your request, but here are some related products you might like.)''"

definition notFoundNote :: string where
  "notFoundNote = CHR 0x0A # ''(I couldn't find specific products matching your request.)''"

text \<open>The fallback for no matches or low scores (lines 559--571 and 1214--1226).\<close>

definition fallbackSearch ::
  "variant \<Rightarrow> KeywordMappings \<Rightarrow> VectorIndex \<Rightarrow> GeminiResult \<Rightarrow>
   QueryResult list \<times> stage \<times> pstate \<Rightarrow> QueryResult list \<times> stage \<times> pstate" where
  "fallbackSearch v km vectorIndex gr acc =
     (case acc of
        (topMatches, searchStageUsed, st) \<Rightarrow>
          if topMatches = [] \<or> \<not> aboveThreshold v topMatches then
            (let fallbackKeywords =
                   orElse (orElse (joinStr '' '' (product_types gr)) (search_keywords gr))
                     ''beauty products''
             in case performVectorQuery v km vectorIndex gr fallbackKeywords (topK gr)
                     (vendorOnly gr) st of
                  (Some fallbackResults, st1) \<Rightarrow>
                    (fallbackResults, FallbackRelatedProducts, st1\<lparr>searchNote := relatedNote\<rparr>)
                | (None, st1) \<Rightarrow> (topMatches, searchStageUsed, st1))
          else (topMatches, searchStageUsed, st))"

definition searchStage ::
  "variant \<Rightarrow> KeywordMappings \<Rightarrow> VectorIndex \<Rightarrow> GeminiResult \<Rightarrow> string \<Rightarrow> pstate \<Rightarrow>
   QueryResult list \<times> stage \<times> pstate" where
  "searchStage v km vectorIndex gr trimmedQuery st =
     fallbackSearch v km vectorIndex gr
       (if length (product_types gr) > 0 then
          (case multiTypeLoop v km vectorIndex gr trimmedQuery (product_types gr) ([], {}, st) of
             (topMatches, usedProductIds, st1) \<Rightarrow> (topMatches, MultiTypeQuery, st1))
        else singleIntentPath v km vectorIndex gr trimmedQuery st)"

subsection \<open>Processing the matches\<close>

text \<open>
  The object a match is mapped to. It is only applied to matches whose metadata passed
  \<open>isProductVectorMetadata\<close>; \<open>match.metadata!\<close> on a match without metadata does not
  occur, and the card of such a match is left empty here.
\<close>

definition toCard :: "variant \<Rightarrow> string \<Rightarrow> QueryResult \<Rightarrow> ProductCardResponse" where
  "toCard v description match =
     (case qr_metadata match of
        Some productData \<Rightarrow>
          \<lparr>card_title = strOf (md_title productData),
           card_description = description,
           card_price = strOf (md_price productData),
           card_image = (case md_imageUrl productData of JString u \<Rightarrow> Some u | _ \<Rightarrow> None),
           card_landing_page = strOf (md_productUrl productData),
           card_variantId = orElse (nullish (md_variantId productData)) (strOf (md_id productData)),
           card_tags = (case v of
                          Stateless \<Rightarrow> None
                        | WithHistory \<Rightarrow> Some (orElse (nullish (md_tags productData)) []))\<rparr>
      | None \<Rightarrow>
          \<lparr>card_title = [], card_description = description, card_price = [], card_image = None,
           card_landing_page = [], card_variantId = [], card_tags = None\<rparr>)"

text \<open>
  \<open>validMatches\<close>: the matches with valid metadata, cut to \<open>requestedCount\<close>
  (\<open>slice\<close> truncates a fractional bound) and sorted by price on request.
\<close>

definition validMatches :: "GeminiResult \<Rightarrow> QueryResult list \<Rightarrow> QueryResult list" where
  "validMatches gr topMatches =
     (let truncated = take (nat \<lfloor>requestedCount gr\<rfloor>) (filter validMetadata topMatches)
      in if sort_by_price gr then sortByPrice truncated else truncated)"

text \<open>Lines 574--624 and 1229--1281: the final product cards and the search note.\<close>

definition processMatches ::
  "variant \<Rightarrow> GeminiResult \<Rightarrow> QueryResult list \<times> stage \<times> pstate \<Rightarrow>
   ProductCardResponse list \<times> pstate" where
  "processMatches v gr acc =
     (case acc of
        (topMatches, searchStageUsed, st) \<Rightarrow>
          if length topMatches > 0 then
            (let vm = validMatches gr topMatches;
                 strict =
                   (if length vm > 0 \<and> searchStageUsed \<noteq> FallbackRelatedProducts then
                      map (toCard v ''Found product related to your query.'')
                        (filter (\<lambda>m. qr_score m \<ge> SIMILARITY_THRESHOLD v) vm)
                    else []);
                 st1 = (if length vm > 0 \<and> searchStageUsed \<noteq> FallbackRelatedProducts \<and>
                           length strict > 0
                        then st\<lparr>searchNote := []\<rparr> else st)
             in (if length strict = 0 then map (toCard v ''Related product suggestion.'') vm
                 else strict,
                 st1))
          else ([], st\<lparr>searchNote := notFoundNote\<rparr>))"

subsection \<open>The response\<close>

record ChatApiResponse =
  resp_ai_understanding :: string
  resp_product_card :: "ProductCardResponse option"
  resp_advice :: string
  resp_complementary_products :: "ProductCardResponse list option"
  resp_history :: "ChatMessage list option"

text \<open>What \<open>NextResponse.json\<close> sends: the body and the status.\<close>

datatype http_response =
    ErrorJson string nat
  | ChatJson ChatApiResponse nat

definition defaultUsageText :: string where
  "defaultUsageText =
     ''For skincare products: '' @ [CHR 0x0A] @
     ''1. Cleanse your face with a gentle cleanser and pat dry.'' @ [CHR 0x0A] @
     ''2. Apply a small amount of the product to affected areas, once or twice daily as directed.'' @ [CHR 0x0A] @
     ''3. Follow with a non-comedogenic moisturizer.'' @ [CHR 0x0A] @
     ''4. Use sunscreen during the day.'' @ [CHR 0x0A] @
     ''For makeup like lipstick: Apply evenly to lips, reapply as needed.'' @ [CHR 0x0A] @
     ''Always patch test new products and consult a specialist if irritation occurs.''"

definition finalResponse ::
  "GeminiResult \<Rightarrow> ProductCardResponse list \<Rightarrow> string \<Rightarrow> ChatMessage list option \<Rightarrow>
   ChatApiResponse" where
  "finalResponse gr finalProductCards note hist =
     (let defaultUsageInstructions = orElse (nullish (usage_instructions gr)) defaultUsageText
      in \<lparr>resp_ai_understanding = ai_understanding gr,
          resp_product_card =
            (if length finalProductCards = 1 then Some (hd finalProductCards) else None),
          resp_advice = advice gr @ [CHR 0x0A, CHR 0x0A] @ defaultUsageInstructions @ note,
          resp_complementary_products =
            (if length finalProductCards > 1 then Some finalProductCards else None),
          resp_history = hist\<rparr>)"

text \<open>The \<open>catch\<close> of the handler; \<open>errorMessage\<close> is that of the exception.\<close>

definition errorResponse :: "variant \<Rightarrow> string \<Rightarrow> http_response" where
  "errorResponse v errorMessage =
     ChatJson
       \<lparr>resp_ai_understanding = ''An error occurred.'',
        resp_product_card = None,
        resp_advice = ''Sorry, I encountered a problem processing your request. (Ref: '' @
                      take 100 errorMessage @ '')'',
        resp_complementary_products = None,
        resp_history = (case v of Stateless \<Rightarrow> None | WithHistory \<Rightarrow> Some [])\<rparr>
       500"

subsection \<open>The conversation history\<close>

text \<open>
  \<open>parseInt(s, 10)\<close>: white space, an optional sign, then the longest run of digits;
  \<open>NaN\<close> (here \<open>None\<close>) when there is no digit.
\<close>

definition parseInt10 :: "string \<Rightarrow> int option" where
  "parseInt10 s =
     (let t = stripLeading whiteSpace s;
          neg = (case t of c # r \<Rightarrow> c = CHR ''-'' | [] \<Rightarrow> False);
          u = (case t of c # r \<Rightarrow> if c = CHR ''-'' \<or> c = CHR ''+'' then r else t | [] \<Rightarrow> t);
          ds = takeWhile isDigit u
      in if ds = [] then None
         else Some (if neg then - int (digitsVal ds) else int (digitsVal ds)))"

text \<open>\<open>xs.slice(start)\<close>: a negative start counts from the end, and \<open>-0\<close> is \<open>0\<close>.\<close>

definition sliceFrom :: "int \<Rightarrow> 'a list \<Rightarrow> 'a list" where
  "sliceFrom start xs =
     (if start < 0 then drop (nat (int (length xs) + start)) xs else drop (nat start) xs)"

text \<open>
  Lines 1300--1303, with \<open>envMax\<close> the value of \<open>process.env.MAX_CHAT_HISTORY\<close>.
  A comparison with \<open>NaN\<close> is false.
\<close>

definition limitHistory :: "string option \<Rightarrow> ChatMessage list \<Rightarrow> ChatMessage list" where
  "limitHistory envMax history =
     (case parseInt10 (orElse (nullish envMax) ''10'') of
        None \<Rightarrow> history
      | Some maxHistory \<Rightarrow>
          if int (length history) > maxHistory then sliceFrom (- maxHistory) history
          else history)"

text \<open>
  What \<open>redis.get\<close> leads to: it throws (\<open>Inl\<close>), or the stored value is absent, not a
  non-empty string, not JSON or not an array (\<open>StoredUnusable\<close>), or it is an array.
  A \<open>redis.set\<close> that throws is caught and changes nothing but the log.
\<close>

datatype stored_value = StoredUnusable | StoredArray "ChatMessage list"

type_synonym Redis = "(string + stored_value) option"

definition retrieveHistory ::
  "Redis \<Rightarrow> ChatMessage list option \<Rightarrow> pstate \<Rightarrow> ChatMessage list option \<times> pstate" where
  "retrieveHistory redis clientHistory st =
     (case redis of
        None \<Rightarrow> (clientHistory, st)
      | Some getResult \<Rightarrow>
          (let st1 = st\<lparr>calls := calls st @ [HistoryRead]\<rparr>
           in case getResult of
                Inr (StoredArray parsedHistory) \<Rightarrow> (Some parsedHistory, st1)
              | Inr StoredUnusable \<Rightarrow> (clientHistory, st1)
              | Inl err \<Rightarrow> (clientHistory, st1)))"

definition storeHistory :: "Redis \<Rightarrow> ChatMessage list \<Rightarrow> pstate \<Rightarrow> pstate" where
  "storeHistory redis history st =
     (case redis of
        None \<Rightarrow> st
      | Some getResult \<Rightarrow> st\<lparr>calls := calls st @ [HistoryWrite history (60 * 60 * 24)]\<rparr>)"

subsection \<open>The handler\<close>

text \<open>
  The request body after \<open>req.json()\<close> and the destructuring: the \<open>query\<close> as JSON and
  the \<open>history\<close>, where \<open>None\<close> is a value that is not an array (an absent
  history is the empty array by default).
\<close>

record RequestBody =
  b_query :: jsval
  b_history :: "ChatMessage list option"

record Env =
  env_geminiModel :: GeminiModel
  env_vectorIndex :: VectorIndex
  env_keywordMappings :: KeywordMappings
  env_redis :: Redis
  env_MAX_CHAT_HISTORY :: "string option"

text \<open>\<open>!query || typeof query !== 'string' || query.trim().length === 0\<close>\<close>

fun invalidQuery :: "jsval \<Rightarrow> bool" where
  "invalidQuery (JString s) = (s = [] \<or> length (trim s) = 0)"
| "invalidQuery q = True"

definition initialState :: pstate where
  "initialState = \<lparr>searchNote = [], calls = []\<rparr>"

text \<open>Stages 1 and 2 and the final response, for a history that is an array.\<close>

definition respond ::
  "variant \<Rightarrow> Env \<Rightarrow> string \<Rightarrow> ChatMessage list \<Rightarrow> pstate \<Rightarrow> ChatApiResponse \<times> pstate" where
  "respond v env trimmedQuery history st =
     (case getUnderstanding (env_keywordMappings env) (env_geminiModel env) trimmedQuery history st of
        (gr, st1) \<Rightarrow>
          (case processMatches v gr
                  (searchStage v (env_keywordMappings env) (env_vectorIndex env) gr trimmedQuery st1) of
             (finalProductCards, st2) \<Rightarrow>
               (case v of
                  Stateless \<Rightarrow>
                    (finalResponse gr finalProductCards (searchNote st2) None, st2)
                | WithHistory \<Rightarrow>
                    (let response = finalResponse gr finalProductCards (searchNote st2) None;
                         pushed = history @
                           [\<lparr>msg_role = User, msg_text = Some trimmedQuery\<rparr>,
                            \<lparr>msg_role = Bot, msg_text = Some (resp_advice response)\<rparr>]
                     in (response\<lparr>resp_history := Some pushed\<rparr>,
                         storeHistory (env_redis env)
                           (limitHistory (env_MAX_CHAT_HISTORY env) pushed) st2)))))"

text \<open>
  \<open>POST\<close>. The request is \<open>Inl message\<close> when \<open>req.json()\<close> or the destructuring of
  its result throws. The response of the history variant holds the array that the two
  \<open>push\<close> calls extend, so it shows the new turns, not the cut made afterwards.
\<close>

definition POST :: "variant \<Rightarrow> Env \<Rightarrow> string + RequestBody \<Rightarrow> http_response \<times> pstate" where
  "POST v env request =
     (case request of
        Inl errorMessage \<Rightarrow> (errorResponse v errorMessage, initialState)
      | Inr body \<Rightarrow>
          if invalidQuery (b_query body) then
            (ErrorJson ''Invalid query provided'' 400, initialState)
          else
            (let trimmedQuery = trim (strOf (b_query body))
             in case (case v of
                        Stateless \<Rightarrow> (b_history body, initialState)
                      | WithHistory \<Rightarrow> retrieveHistory (env_redis env) (b_history body) initialState) of
                  (None, st) \<Rightarrow> (errorResponse v ''history.filter is not a function'', st)
                | (Some history, st) \<Rightarrow>
                    (case respond v env trimmedQuery history st of
                       (response, st1) \<Rightarrow> (ChatJson response 200, st1))))"

text \<open>
  The request whose body is the JSON value \<open>null\<close>: \<open>req.json()\<close> succeeds and the
  destructuring \<open>const { query, history = [] } = body\<close> throws a \<open>TypeError\<close> inside the
  \<open>try\<close>. A body that is not JSON makes \<open>req.json()\<close> itself throw there.
\<close>

definition nullBody :: "string + RequestBody" where
  "nullBody = Inl ''Cannot destructure property 'query' of 'body' as it is null.''"

subsection \<open>Reading a response\<close>

text \<open>
  The product cards a response shows (one card under \<open>product_card\<close>, several under
  \<open>complementary_products\<close>), its advice and its error string.
\<close>

definition responseCards :: "ChatApiResponse \<Rightarrow> ProductCardResponse list" where
  "responseCards r =
     (case resp_complementary_products r of
        Some cs \<Rightarrow> cs
      | None \<Rightarrow> (case resp_product_card r of Some c \<Rightarrow> [c] | None \<Rightarrow> []))"

fun adviceOf :: "http_response \<Rightarrow> string option" where
  "adviceOf (ChatJson r status) = Some (resp_advice r)"
| "adviceOf (ErrorJson e status) = None"

fun errorOf :: "http_response \<Rightarrow> string option" where
  "errorOf (ChatJson r status) = None"
| "errorOf (ErrorJson e status) = Some e"


fun statusOf :: "http_response \<Rightarrow> nat" where
  "statusOf (ChatJson r status) = status"
| "statusOf (ErrorJson e status) = status"

subsection \<open>Example data\<close>

text \<open>A catalogue record with valid metadata, and a search result holding it.\<close>

definition exMeta :: "string \<Rightarrow> string \<Rightarrow> string \<Rightarrow> string \<Rightarrow> string \<Rightarrow> ProductVectorMetadata" where
  "exMeta i title price ptype tags =
     \<lparr>md_id = JString i, md_handle = JString i, md_title = JString title,
      md_price = JString price, md_imageUrl = JNull, md_productUrl = JString i,
      md_variantId = None, md_vendor = None, md_productType = Some ptype,
      md_tags = Some tags\<rparr>"

definition exResult :: "string \<Rightarrow> rat \<Rightarrow> string \<Rightarrow> string \<Rightarrow> string \<Rightarrow> string \<Rightarrow> QueryResult" where
  "exResult i score title price ptype tags =
     \<lparr>qr_id = i, qr_score = score, qr_metadata = Some (exMeta i title price ptype tags)\<rparr>"

definition exMappings :: KeywordMappings where
  "exMappings = \<lparr>typeToKeywords = (\<lambda>t. None), synonyms = (\<lambda>t. None), defaultComboTypes = []\<rparr>"

definition exFilter :: "string \<Rightarrow> QueryFilter" where
  "exFilter t = \<lparr>f_productType = Some t, f_tags = Some t, f_vendor = Some []\<rparr>"

text \<open>
  An environment in which every external dependency fails: the language model and the
  search engine throw on every call, and so does the history store.
\<close>

definition exEnvDown :: Env where
  "exEnvDown =
     \<lparr>env_geminiModel = Some (\<lambda>q h. CallFailed),
      env_vectorIndex = Some (\<lambda>n t k. Inl ''unavailable''),
      env_keywordMappings = exMappings,
      env_redis = Some (Inl ''unavailable''),
      env_MAX_CHAT_HISTORY = None\<rparr>"

text \<open>
  A search engine that answers every query with the same four lipsticks, all scoring
  above both thresholds, and an environment with it and a language model whose reply
  passes the structure check.
\<close>

definition exCatalogue :: "QueryResult list" where
  "exCatalogue =
     [exResult ''p1'' 2 ''Red Lipstick'' ''$12.00'' ''Makeup > Lipstick'' ''lipstick, vegan'',
      exResult ''p2'' 2 ''Pink Lipstick'' ''$5.50'' ''Makeup > Lipstick'' ''lipstick'',
      exResult ''p3'' 2 ''Nude Lipstick'' ''N/A'' ''Makeup > Lipstick'' ''lipstick, vegan'',
      exResult ''p4'' 2 ''Luxury Lipstick'' ''$30'' ''Makeup > Lipstick'' ''lipstick, vegan'']"

definition exEnv :: "GeminiResult \<Rightarrow> Env" where
  "exEnv reply =
     \<lparr>env_geminiModel = Some (\<lambda>q h. Parsed reply),
      env_vectorIndex = Some (\<lambda>n t k. Inr exCatalogue),
      env_keywordMappings = exMappings,
      env_redis = None,
      env_MAX_CHAT_HISTORY = None\<rparr>"

text \<open>The reply to \<open>top 4 cheapest lipsticks\<close> that the prompt asks for.\<close>

definition exCheapest :: GeminiResult where
  "exCheapest =
     \<lparr>ai_understanding = ''The user wants the four cheapest lipsticks.'',
      search_keywords = ''lipstick'',
      advice = ''Here are our cheapest lipsticks.'',
      requested_product_count = 4,
      product_types = [''lipstick''],
      usage_instructions = None,
      price_filter = None,
      sort_by_price = True,
      vendor = [],
      attributes = None\<rparr>"

text \<open>A reply to \<open>three cheap lipsticks\<close> that names no product type.\<close>

definition exCheapThree :: GeminiResult where
  "exCheapThree =
     \<lparr>ai_understanding = ''The user wants three cheap lipsticks.'',
      search_keywords = ''lipstick'',
      advice = ''Here are three cheap lipsticks.'',
      requested_product_count = 3,
      product_types = [],
      usage_instructions = None,
      price_filter = None,
      sort_by_price = True,
      vendor = [],
      attributes = None\<rparr>"


text \<open>
  A routine of two product types, over a catalogue in which the second record matches
  both types.
\<close>

definition exRoutineCatalogue :: "QueryResult list" where
  "exRoutineCatalogue =
     [exResult ''x1'' 2 ''Gentle Cleanser'' ''$9'' ''Skincare > Cleanser'' ''face'',
      exResult ''x2'' 2 ''Cleansing Cream'' ''$14'' ''Skincare > Moisturizer'' ''cleanser, moisturizer'',
      exResult ''x3'' 2 ''Day Moisturizer'' ''$11'' ''Skincare > Moisturizer'' ''face'']"

definition exRoutine :: GeminiResult where
  "exRoutine =
     \<lparr>ai_understanding = ''The user wants a cleanser and a moisturizer.'',
      search_keywords = ''cleanser moisturizer'',
      advice = ''Cleanse first, then moisturize.'',
      requested_product_count = 2,
      product_types = [''cleanser'', ''moisturizer''],
      usage_instructions = None,
      price_filter = None,
      sort_by_price = False,
      vendor = [],
      attributes = None\<rparr>"

text \<open>
  A search engine that lists the same record twice in every answer, with a given score.
\<close>

definition exDuplicateIndex :: "rat \<Rightarrow> VectorIndex" where
  "exDuplicateIndex score =
     Some (\<lambda>n t k.
       Inr [exResult ''d1'' score ''Cleansing Cream'' ''$14'' ''Skincare > Moisturizer''
              ''cleanser, moisturizer'',
            exResult ''d1'' score ''Cleansing Cream'' ''$14'' ''Skincare > Moisturizer''
              ''cleanser, moisturizer''])"



text \<open>A request body with a query and an empty history.\<close>

definition exBody :: "jsval \<Rightarrow> RequestBody" where
  "exBody q = \<lparr>b_query = q, b_history = Some []\<rparr>"

section \<open>Properties\<close>

subsection \<open>Auxiliary facts\<close>

lemma parsePrice_nonneg: "0 \<le> parsePrice s"
  by (simp add: parsePrice_def parseFloat_def Let_def)

lemma sort_key_Nil_iff: "sort_key f xs = [] \<longleftrightarrow> xs = []"
proof -
  have "set (sort_key f xs) = {} \<longleftrightarrow> set xs = {}" by simp
  then show ?thesis by (simp only: set_empty)
qed

lemma sortByPrice_Nil_iff:
  "sortByPrice rs = [] \<longleftrightarrow> filter (\<lambda>r. qr_metadata r \<noteq> None) rs = []"
  by (simp only: sortByPrice_def sort_key_Nil_iff)

lemma responseCards_finalResponse: "responseCards (finalResponse gr cards note h) = cards"
proof (cases cards)
  case Nil
  then show ?thesis by (simp add: responseCards_def finalResponse_def Let_def)
next
  case (Cons c cs)
  then show ?thesis by (cases cs) (simp_all add: responseCards_def finalResponse_def Let_def)
qed

lemma passesFilter_metadata: "passesFilter v km gr flt r \<Longrightarrow> qr_metadata r \<noteq> None"
  by (auto simp: passesFilter_def split: option.splits)

lemma passesFilter_valid: "passesFilter v km gr flt r \<Longrightarrow> validMetadata r"
  by (auto simp: passesFilter_def validMetadata_def split: option.splits if_splits)

lemma ex_shampoo_rejected:
  "\<not> passesFilter Stateless exMappings defaultGeminiResult (exFilter ''lipstick'')
       (exResult ''p1'' 2 ''Shampoo'' ''$5'' ''Hair'' ''hair'')"
  by code_simp

subsection \<open>performVectorQuery: null or a non-empty list\<close>

text \<open>
  Claim C10. \<open>performVectorQuery\<close> never returns an empty list: for every search text,
  topK and filter, in both variants, its result is \<open>null\<close> or a non-empty list. A client
  that was never initialised, a blank search text, a query that throws, an answer without
  results, and an answer whose every element the filter rejects all give \<open>null\<close>, so a
  stage whose filtered set is empty falls through like one that found nothing.
\<close>

theorem performVectorQuery_never_empty:
  "fst (performVectorQuery v km idx gr searchText k flt st) \<noteq> Some [] \<and>
   fst (performVectorQuery v km None gr searchText k flt st) = None \<and>
   (trim searchText = [] \<longrightarrow> fst (performVectorQuery v km idx gr searchText k flt st) = None) \<and>
   (idx = Some query \<and> query (length (calls st)) searchText k = Inl err \<longrightarrow>
      fst (performVectorQuery v km idx gr searchText k flt st) = None) \<and>
   (idx = Some query \<and> query (length (calls st)) searchText k = Inr [] \<longrightarrow>
      fst (performVectorQuery v km idx gr searchText k flt st) = None) \<and>
   (idx = Some query \<and> query (length (calls st)) searchText k = Inr rs \<and>
    (\<forall>r \<in> set rs. \<not> passesFilter v km gr flt r) \<longrightarrow>
      fst (performVectorQuery v km idx gr searchText k flt st) = None)"
proof (intro conjI impI)
  show "fst (performVectorQuery v km idx gr searchText k flt st) \<noteq> Some []"
    by (simp add: performVectorQuery_def Let_def split: option.splits sum.splits)
  show "fst (performVectorQuery v km None gr searchText k flt st) = None"
    by (simp add: performVectorQuery_def)
  show "fst (performVectorQuery v km idx gr searchText k flt st) = None" if "trim searchText = []"
    using that by (simp add: performVectorQuery_def split: option.splits)
  show "fst (performVectorQuery v km idx gr searchText k flt st) = None"
    if "idx = Some query \<and> query (length (calls st)) searchText k = Inl err"
    using that by (simp add: performVectorQuery_def Let_def)
  show "fst (performVectorQuery v km idx gr searchText k flt st) = None"
    if "idx = Some query \<and> query (length (calls st)) searchText k = Inr []"
    using that by (simp add: performVectorQuery_def Let_def)
  show "fst (performVectorQuery v km idx gr searchText k flt st) = None"
    if h: "idx = Some query \<and> query (length (calls st)) searchText k = Inr rs \<and>
        (\<forall>r \<in> set rs. \<not> passesFilter v km gr flt r)"
  proof -
    from h have "filter (passesFilter v km gr flt) rs = []" by (simp add: filter_empty_conv)
    with h show ?thesis
      by (simp add: performVectorQuery_def Let_def sortByPrice_def)
  qed
qed

theorem performVectorQuery_never_empty_witness:
  "trim '' '' = [] \<and>
   fst (performVectorQuery Stateless exMappings (Some (\<lambda>n t k. Inl ''down'')) defaultGeminiResult
          '' '' 10 (exFilter ''lipstick'') initialState) = None \<and>
   fst (performVectorQuery Stateless exMappings (Some (\<lambda>n t k. Inl ''down'')) defaultGeminiResult
          ''lipstick'' 10 (exFilter ''lipstick'') initialState) = None \<and>
   fst (performVectorQuery Stateless exMappings (Some (\<lambda>n t k. Inr [])) defaultGeminiResult
          ''lipstick'' 10 (exFilter ''lipstick'') initialState) = None \<and>
   \<not> passesFilter Stateless exMappings defaultGeminiResult (exFilter ''lipstick'')
       (exResult ''p1'' 2 ''Shampoo'' ''$5'' ''Hair'' ''hair'') \<and>
   fst (performVectorQuery Stateless exMappings
          (Some (\<lambda>n t k. Inr [exResult ''p1'' 2 ''Shampoo'' ''$5'' ''Hair'' ''hair'']))
          defaultGeminiResult ''lipstick'' 10 (exFilter ''lipstick'') initialState) = None"
proof -
  have blank: "trim '' '' = []"
    by code_simp
  have rej: "\<forall>r \<in> set [exResult ''p1'' 2 ''Shampoo'' ''$5'' ''Hair'' ''hair''].
      \<not> passesFilter Stateless exMappings defaultGeminiResult (exFilter ''lipstick'') r"
    using ex_shampoo_rejected by simp
  note t = performVectorQuery_never_empty
    [where v = Stateless and km = exMappings and gr = defaultGeminiResult and k = 10
       and flt = "exFilter ''lipstick''" and st = initialState]
  from blank t [where searchText = "'' ''" and idx = "Some (\<lambda>n t k. Inl ''down'')"]
  have c1: "fst (performVectorQuery Stateless exMappings (Some (\<lambda>n t k. Inl ''down''))
          defaultGeminiResult '' '' 10 (exFilter ''lipstick'') initialState) = None"
    by blast
  from t [where searchText = "''lipstick''" and idx = "Some (\<lambda>n t k. Inl ''down'')"
            and query = "\<lambda>n t k. Inl ''down''" and err = "''down''"]
  have c2: "fst (performVectorQuery Stateless exMappings (Some (\<lambda>n t k. Inl ''down''))
          defaultGeminiResult ''lipstick'' 10 (exFilter ''lipstick'') initialState) = None"
    by blast
  from t [where searchText = "''lipstick''" and idx = "Some (\<lambda>n t k. Inr [])"
            and query = "\<lambda>n t k. Inr []"]
  have c3: "fst (performVectorQuery Stateless exMappings (Some (\<lambda>n t k. Inr []))
          defaultGeminiResult ''lipstick'' 10 (exFilter ''lipstick'') initialState) = None"
    by blast
  from rej t [where searchText = "''lipstick''"
            and idx = "Some (\<lambda>n t k. Inr [exResult ''p1'' 2 ''Shampoo'' ''$5'' ''Hair'' ''hair''])"
            and query = "\<lambda>n t k. Inr [exResult ''p1'' 2 ''Shampoo'' ''$5'' ''Hair'' ''hair'']"
            and rs = "[exResult ''p1'' 2 ''Shampoo'' ''$5'' ''Hair'' ''hair'']"]
  have c4: "fst (performVectorQuery Stateless exMappings
          (Some (\<lambda>n t k. Inr [exResult ''p1'' 2 ''Shampoo'' ''$5'' ''Hair'' ''hair'']))
          defaultGeminiResult ''lipstick'' 10 (exFilter ''lipstick'') initialState) = None"
    by blast
  from blank c1 c2 c3 ex_shampoo_rejected c4 show ?thesis by blast
qed

subsection \<open>The threshold policy of the final selection\<close>

lemma validMetadata_has_metadata: "validMetadata r \<Longrightarrow> qr_metadata r \<noteq> None"
  by (auto simp: validMetadata_def split: option.splits)

lemma requestedCount_ge_1: "1 \<le> requestedCount gr"
  by (simp add: requestedCount_def)

lemma floor_requestedCount_pos: "0 < nat \<lfloor>requestedCount gr\<rfloor>"
proof -
  have "1 \<le> \<lfloor>requestedCount gr\<rfloor>" using requestedCount_ge_1 [of gr] by (simp add: le_floor_iff)
  then show ?thesis by simp
qed

lemma filter_metadata_of_valid:
  "list_all validMetadata rs \<Longrightarrow> filter (\<lambda>r. qr_metadata r \<noteq> None) rs = rs"
  by (induction rs) (auto simp: validMetadata_has_metadata)

lemma validMatches_Nil_iff: "validMatches gr tm = [] \<longleftrightarrow> filter validMetadata tm = []"
proof -
  let ?t = "take (nat \<lfloor>requestedCount gr\<rfloor>) (filter validMetadata tm)"
  have "list_all validMetadata ?t"
    by (auto simp: list_all_iff dest: in_set_takeD)
  then have f: "filter (\<lambda>r. qr_metadata r \<noteq> None) ?t = ?t"
    by (rule filter_metadata_of_valid)
  have t: "?t = [] \<longleftrightarrow> filter validMetadata tm = []"
    using floor_requestedCount_pos [of gr] by simp
  show ?thesis
  proof (cases "sort_by_price gr")
    case True
    then have "validMatches gr tm = sortByPrice ?t"
      by (simp only: validMatches_def Let_def if_True)
    then show ?thesis by (simp only: sortByPrice_Nil_iff f t)
  next
    case False
    then have "validMatches gr tm = ?t"
      by (simp only: validMatches_def Let_def if_False)
    then show ?thesis by (simp only: t)
  qed
qed

lemma validMatches_Nil [simp]: "validMatches gr [] = []"
  by (simp add: validMatches_Nil_iff)

lemma processMatches_cards:
  "fst (processMatches v gr (tm, stg, st)) =
     (if stg \<noteq> FallbackRelatedProducts \<and>
         filter (\<lambda>m. qr_score m \<ge> SIMILARITY_THRESHOLD v) (validMatches gr tm) \<noteq> []
      then map (toCard v ''Found product related to your query.'')
             (filter (\<lambda>m. qr_score m \<ge> SIMILARITY_THRESHOLD v) (validMatches gr tm))
      else map (toCard v ''Related product suggestion.'') (validMatches gr tm))"
proof (cases "tm = []")
  case True
  then show ?thesis by (simp add: processMatches_def)
next
  case False
  then show ?thesis
    by (auto simp add: processMatches_def Let_def)
qed

text \<open>
  Claim C1. Both variants build the final product cards from \<open>validMatches\<close>, the
  matches with valid metadata cut to \<open>requestedCount\<close> (and sorted by price on
  request). When the stage is not the fallback stage the cards are those of the valid
  matches whose score reaches the threshold, and when none reaches it, or when the stage is
  the fallback stage, the cards are those of all valid matches, whatever their score. So
  the card list is empty exactly when the truncation leaves nothing, and it is not empty
  when the matcher accumulated a candidate with valid metadata.
\<close>

theorem processMatches_threshold_policy:
  "fst (processMatches v gr (topMatches, searchStageUsed, st)) =
     (if searchStageUsed \<noteq> FallbackRelatedProducts \<and>
         filter (\<lambda>m. qr_score m \<ge> SIMILARITY_THRESHOLD v) (validMatches gr topMatches) \<noteq> []
      then map (toCard v ''Found product related to your query.'')
             (filter (\<lambda>m. qr_score m \<ge> SIMILARITY_THRESHOLD v) (validMatches gr topMatches))
      else map (toCard v ''Related product suggestion.'') (validMatches gr topMatches)) \<and>
   (fst (processMatches v gr (topMatches, searchStageUsed, st)) = [] \<longleftrightarrow>
      validMatches gr topMatches = []) \<and>
   (list_ex validMetadata topMatches \<longrightarrow>
      validMatches gr topMatches \<noteq> [] \<and>
      fst (processMatches v gr (topMatches, searchStageUsed, st)) \<noteq> [])"
proof -
  have nil: "fst (processMatches v gr (topMatches, searchStageUsed, st)) = [] \<longleftrightarrow>
      validMatches gr topMatches = []"
    by (auto simp add: processMatches_cards)
  have ne: "validMatches gr topMatches \<noteq> []" if "list_ex validMetadata topMatches"
    using that by (simp add: validMatches_Nil_iff filter_empty_conv list_ex_iff)
  show ?thesis
    using nil ne processMatches_cards [of v gr topMatches searchStageUsed st] by simp
qed

lemma ex_lipstick_valid: "validMetadata (exResult ''p2'' (1/2) ''Red Lipstick'' ''$12'' ''Makeup'' ''lipstick'')"
  by (simp add: validMetadata_def exResult_def exMeta_def isProductVectorMetadata_def)

theorem processMatches_threshold_policy_witness:
  "list_ex validMetadata [exResult ''p2'' (1/2) ''Red Lipstick'' ''$12'' ''Makeup'' ''lipstick''] \<and>
   validMatches defaultGeminiResult
     [exResult ''p2'' (1/2) ''Red Lipstick'' ''$12'' ''Makeup'' ''lipstick''] \<noteq> [] \<and>
   fst (processMatches WithHistory defaultGeminiResult
          ([exResult ''p2'' (1/2) ''Red Lipstick'' ''$12'' ''Makeup'' ''lipstick''],
           AIKeywords, initialState)) \<noteq> []"
proof -
  have h: "list_ex validMetadata [exResult ''p2'' (1/2) ''Red Lipstick'' ''$12'' ''Makeup'' ''lipstick'']"
    using ex_lipstick_valid by simp
  with processMatches_threshold_policy
         [of WithHistory defaultGeminiResult
            "[exResult ''p2'' (1/2) ''Red Lipstick'' ''$12'' ''Makeup'' ''lipstick'']"
            AIKeywords initialState]
  show ?thesis by blast
qed

subsection \<open>Input validation\<close>

lemma invalidQuery_iff: "invalidQuery q \<longleftrightarrow> \<not> isString q \<or> trim (strOf q) = []"
  by (cases q) (auto simp: trim_def)

text \<open>
  Claim C8, amended. When the request body can be destructured (it is JSON and not
  \<open>null\<close>) and its \<open>query\<close> is missing, is not a string or is empty after trimming,
  both variants answer with the JSON object \<open>{error: 'Invalid query provided'}\<close> and
  status 400, and the request has made no call to an external service: no language-model
  call, no search query, no history read or write. A body that is not JSON or is \<open>null\<close>
  makes the handler throw before that check: its \<open>catch\<close> answers with status 500 and an
  apology under \<open>advice\<close>, without an \<open>error\<close> string, and no external call is made
  either.
\<close>

theorem POST_rejects_invalid_query:
  assumes "\<not> isString (b_query body) \<or> trim (strOf (b_query body)) = []"
  shows "fst (POST v env (Inr body)) = ErrorJson ''Invalid query provided'' 400 \<and>
         errorOf (fst (POST v env (Inr body))) = Some ''Invalid query provided'' \<and>
         statusOf (fst (POST v env (Inr body))) = 400 \<and>
         calls (snd (POST v env (Inr body))) = [] \<and>
         fst (POST v env (Inl msg)) = errorResponse v msg \<and>
         errorOf (fst (POST v env (Inl msg))) = None \<and>
         statusOf (fst (POST v env (Inl msg))) = 500 \<and>
         calls (snd (POST v env (Inl msg))) = []"
proof -
  from assms have "invalidQuery (b_query body)" by (simp add: invalidQuery_iff)
  then have r: "POST v env (Inr body) = (ErrorJson ''Invalid query provided'' 400, initialState)"
    by (simp add: POST_def)
  have l: "POST v env (Inl msg) = (errorResponse v msg, initialState)"
    by (simp add: POST_def)
  show ?thesis
    unfolding r l by (simp add: initialState_def errorResponse_def)
qed

theorem POST_rejects_invalid_query_witness:
  "trim (strOf (b_query (exBody (JString ''  '')))) = [] \<and>
   fst (POST WithHistory exEnvDown (Inr (exBody (JString ''  '')))) =
     ErrorJson ''Invalid query provided'' 400 \<and>
   calls (snd (POST WithHistory exEnvDown (Inr (exBody (JString ''  ''))))) = [] \<and>
   trim (strOf (b_query (exBody (JString [CHR 0xC2, CHR 0xA0, CHR 0xE3, CHR 0x80, CHR 0x80])))) = [] \<and>
   fst (POST WithHistory exEnvDown
          (Inr (exBody (JString [CHR 0xC2, CHR 0xA0, CHR 0xE3, CHR 0x80, CHR 0x80])))) =
     ErrorJson ''Invalid query provided'' 400 \<and>
   \<not> isString (b_query (exBody JUndefined)) \<and>
   fst (POST Stateless exEnvDown (Inr (exBody JUndefined))) =
     ErrorJson ''Invalid query provided'' 400 \<and>
   calls (snd (POST Stateless exEnvDown (Inr (exBody JUndefined)))) = [] \<and>
   \<not> isString (b_query (exBody (JNum 5))) \<and>
   fst (POST Stateless exEnvDown (Inr (exBody (JNum 5)))) =
     ErrorJson ''Invalid query provided'' 400"
proof -
  have blank: "trim (strOf (b_query (exBody (JString ''  '')))) = []"
    by code_simp
  have nbsp: "trim (strOf (b_query
      (exBody (JString [CHR 0xC2, CHR 0xA0, CHR 0xE3, CHR 0x80, CHR 0x80])))) = []"
    by code_simp
  have missing: "\<not> isString (b_query (exBody JUndefined))"
    by (simp add: exBody_def)
  have number: "\<not> isString (b_query (exBody (JNum 5)))"
    by (simp add: exBody_def)
  from blank POST_rejects_invalid_query
    [where body = "exBody (JString ''  '')" and v = WithHistory and env = exEnvDown]
  have a: "fst (POST WithHistory exEnvDown (Inr (exBody (JString ''  '')))) =
     ErrorJson ''Invalid query provided'' 400 \<and>
   calls (snd (POST WithHistory exEnvDown (Inr (exBody (JString ''  ''))))) = []"
    by blast
  from nbsp POST_rejects_invalid_query
    [where body = "exBody (JString [CHR 0xC2, CHR 0xA0, CHR 0xE3, CHR 0x80, CHR 0x80])"
       and v = WithHistory and env = exEnvDown]
  have n: "fst (POST WithHistory exEnvDown
          (Inr (exBody (JString [CHR 0xC2, CHR 0xA0, CHR 0xE3, CHR 0x80, CHR 0x80])))) =
     ErrorJson ''Invalid query provided'' 400"
    by blast
  from missing POST_rejects_invalid_query
    [where body = "exBody JUndefined" and v = Stateless and env = exEnvDown]
  have b: "fst (POST Stateless exEnvDown (Inr (exBody JUndefined))) =
     ErrorJson ''Invalid query provided'' 400 \<and>
   calls (snd (POST Stateless exEnvDown (Inr (exBody JUndefined)))) = []"
    by blast
  from number POST_rejects_invalid_query
    [where body = "exBody (JNum 5)" and v = Stateless and env = exEnvDown]
  have c: "fst (POST Stateless exEnvDown (Inr (exBody (JNum 5)))) =
     ErrorJson ''Invalid query provided'' 400"
    by blast
  from blank nbsp missing number a n b c show ?thesis by blast
qed

text \<open>
  As first stated, for every request without a usable query, the property fails on the
  body \<open>null\<close>: the response has status 500 and an \<open>advice\<close>, and no \<open>error\<close> string.
\<close>

theorem POST_null_body_counterexample:
  "statusOf (fst (POST Stateless exEnvDown nullBody)) = 500 \<and>
   errorOf (fst (POST Stateless exEnvDown nullBody)) = None \<and>
   adviceOf (fst (POST Stateless exEnvDown nullBody)) =
     Some (''Sorry, I encountered a problem processing your request. (Ref: '' @
           ''Cannot destructure property 'query' of 'body' as it is null.'' @ '')'') \<and>
   statusOf (fst (POST WithHistory exEnvDown nullBody)) = 500 \<and>
   errorOf (fst (POST WithHistory exEnvDown nullBody)) = None"
  by (simp add: POST_def nullBody_def errorResponse_def)

subsection \<open>The advice is never empty\<close>

lemma finalResponse_advice:
  "resp_advice (finalResponse gr cards note h) \<noteq> []"
  by (simp add: finalResponse_def Let_def)

lemma respond_advice: "resp_advice (fst (respond v env q h st)) \<noteq> []"
  by (cases v)
    (simp_all add: respond_def Let_def finalResponse_advice split: prod.splits)

lemma errorResponse_advice:
  "adviceOf (errorResponse v msg) =
     Some (''Sorry, I encountered a problem processing your request. (Ref: '' @
           take 100 msg @ '')'')"
  by (simp add: errorResponse_def)

lemma POST_valid:
  assumes "isString (b_query body)" and "trim (strOf (b_query body)) \<noteq> []"
  shows "\<exists>r st. POST v env (Inr body) = (ChatJson r 200, st) \<and> resp_advice r \<noteq> [] \<or>
         (\<exists>msg st. POST v env (Inr body) = (errorResponse v msg, st))"
proof -
  from assms have nv: "\<not> invalidQuery (b_query body)" by (simp add: invalidQuery_iff)
  obtain hopt st where hs:
    "(case v of Stateless \<Rightarrow> (b_history body, initialState)
      | WithHistory \<Rightarrow> retrieveHistory (env_redis env) (b_history body) initialState) = (hopt, st)"
    by (cases "(case v of Stateless \<Rightarrow> (b_history body, initialState)
      | WithHistory \<Rightarrow> retrieveHistory (env_redis env) (b_history body) initialState)") simp
  show ?thesis
  proof (cases hopt)
    case None
    with nv hs have "POST v env (Inr body) = (errorResponse v ''history.filter is not a function'', st)"
      by (simp add: POST_def Let_def)
    then show ?thesis by blast
  next
    case (Some h)
    obtain r st1 where r: "respond v env (trim (strOf (b_query body))) h st = (r, st1)"
      by (cases "respond v env (trim (strOf (b_query body))) h st") simp
    with nv hs Some have "POST v env (Inr body) = (ChatJson r 200, st1)"
      by (simp add: POST_def Let_def)
    moreover from r have "resp_advice r \<noteq> []"
      using respond_advice [of v env "trim (strOf (b_query body))" h st] by simp
    ultimately show ?thesis by blast
  qed
qed

text \<open>
  Claim C3. For every request whose query is a string that is not empty after trimming,
  in both variants and whatever the language model, the search engine and the history
  store do (including throwing on every call), the JSON response holds a non-empty
  \<open>advice\<close> string. On the top-level error path the advice is the generic apology
  followed by the first 100 characters of the error message.
\<close>

theorem POST_advice_nonempty:
  assumes "isString (b_query body)" and "trim (strOf (b_query body)) \<noteq> []"
  shows "adviceOf (fst (POST v env (Inr body))) \<noteq> None \<and>
         adviceOf (fst (POST v env (Inr body))) \<noteq> Some [] \<and>
         adviceOf (fst (POST v env (Inl msg))) =
           Some (''Sorry, I encountered a problem processing your request. (Ref: '' @
                 take 100 msg @ '')'') \<and>
         adviceOf (errorResponse v msg) \<noteq> Some [] \<and>
         statusOf (errorResponse v msg) = 500"
proof -
  have e: "adviceOf (errorResponse v m) \<noteq> None \<and> adviceOf (errorResponse v m) \<noteq> Some []" for m
    by (simp add: errorResponse_advice)
  from POST_valid [OF assms, of v env]
  have "adviceOf (fst (POST v env (Inr body))) \<noteq> None \<and>
        adviceOf (fst (POST v env (Inr body))) \<noteq> Some []"
    using e by auto
  moreover have "adviceOf (fst (POST v env (Inl msg))) =
           Some (''Sorry, I encountered a problem processing your request. (Ref: '' @
                 take 100 msg @ '')'')"
    by (simp add: POST_def errorResponse_advice)
  moreover have "statusOf (errorResponse v msg) = 500"
    by (simp add: errorResponse_def)
  ultimately show ?thesis using e [of msg] by simp
qed

theorem POST_advice_nonempty_witness:
  "isString (b_query (exBody (JString ''hi''))) \<and>
   trim (strOf (b_query (exBody (JString ''hi'')))) \<noteq> [] \<and>
   adviceOf (fst (POST WithHistory exEnvDown (Inr (exBody (JString ''hi''))))) \<noteq> None \<and>
   adviceOf (fst (POST WithHistory exEnvDown (Inr (exBody (JString ''hi''))))) \<noteq> Some [] \<and>
   adviceOf (fst (POST Stateless exEnvDown (Inr (exBody (JString ''hi''))))) \<noteq> None \<and>
   adviceOf (fst (POST Stateless exEnvDown (Inr (exBody (JString ''hi''))))) \<noteq> Some []"
proof -
  have s: "isString (b_query (exBody (JString ''hi'')))"
    by (simp add: exBody_def)
  have t: "trim (strOf (b_query (exBody (JString ''hi'')))) \<noteq> []"
    by code_simp
  from POST_advice_nonempty [OF s t, of WithHistory exEnvDown]
       POST_advice_nonempty [OF s t, of Stateless exEnvDown] s t
  show ?thesis by blast
qed

subsection \<open>The price sort\<close>

lemma respond_cards:
  "responseCards (fst (respond v env q h st)) =
     fst (processMatches v
            (fst (getUnderstanding (env_keywordMappings env) (env_geminiModel env) q h st))
            (searchStage v (env_keywordMappings env) (env_vectorIndex env)
               (fst (getUnderstanding (env_keywordMappings env) (env_geminiModel env) q h st)) q
               (snd (getUnderstanding (env_keywordMappings env) (env_geminiModel env) q h st))))"
proof -
  have upd: "responseCards (r\<lparr>resp_history := x\<rparr>) = responseCards r" for r x
    by (simp add: responseCards_def split: option.splits)
  show ?thesis
    by (cases v)
      (simp_all add: respond_def Let_def upd responseCards_finalResponse split: prod.splits)
qed

lemma card_price_toCard: "card_price (toCard v d m) = priceOf m"
  by (simp add: toCard_def priceOf_def split: option.splits)

lemma sorted_sortByPrice: "sorted (map (\<lambda>r. parsePrice (priceOf r)) (sortByPrice rs))"
  unfolding sortByPrice_def by (rule sorted_sort_key)

lemma validMatches_sorted:
  "sort_by_price gr \<Longrightarrow> sorted (map (\<lambda>r. parsePrice (priceOf r)) (validMatches gr tm))"
  by (simp add: validMatches_def Let_def sorted_sortByPrice)

lemma processMatches_sorted:
  assumes "sort_by_price gr"
  shows "sorted (map (\<lambda>c. parsePrice (card_price c)) (fst (processMatches v gr acc)))"
proof -
  obtain tm stg st where acc: "acc = (tm, stg, st)" by (cases acc) auto
  have s: "sorted (map (\<lambda>r. parsePrice (priceOf r)) (validMatches gr tm))"
    using assms by (rule validMatches_sorted)
  then have f: "sorted (map (\<lambda>r. parsePrice (priceOf r))
                  (filter (\<lambda>m. qr_score m \<ge> SIMILARITY_THRESHOLD v) (validMatches gr tm)))"
    by (rule sorted_filter)
  have m: "map (\<lambda>c. parsePrice (card_price c)) (map (toCard v d) xs) =
           map (\<lambda>r. parsePrice (priceOf r)) xs" for d xs
    by (simp add: card_price_toCard comp_def)
  show ?thesis
  proof (cases "stg \<noteq> FallbackRelatedProducts \<and>
      filter (\<lambda>m. qr_score m \<ge> SIMILARITY_THRESHOLD v) (validMatches gr tm) \<noteq> []")
    case True
    then have "fst (processMatches v gr acc) =
        map (toCard v ''Found product related to your query.'')
          (filter (\<lambda>m. qr_score m \<ge> SIMILARITY_THRESHOLD v) (validMatches gr tm))"
      unfolding acc processMatches_cards by simp
    with f show ?thesis by (simp only: m)
  next
    case False
    then have "fst (processMatches v gr acc) =
        map (toCard v ''Related product suggestion.'') (validMatches gr tm)"
      unfolding acc processMatches_cards by auto
    with s show ?thesis by (simp only: m)
  qed
qed

lemma parsePrice_malformed:
  "parseFloat (filter (\<lambda>c. isDigit c \<or> c = CHR ''.'') s) = None \<Longrightarrow> parsePrice s = 0"
  by (simp add: parsePrice_def)

text \<open>
  Claim C5. Whenever the intent of a request has \<open>sort_by_price\<close>, the parsed prices of
  the product cards of the response are non-decreasing. A price string is parsed by
  \<open>parsePrice\<close>: the characters other than digits and the dot are removed, the rest is
  read as a decimal number, and the result is 0 when that fails; no parsed price is
  negative, so a card with a malformed price comes before every card with a positive one.
\<close>

theorem price_sort_nondecreasing:
  assumes "sort_by_price
             (fst (getUnderstanding (env_keywordMappings env) (env_geminiModel env) q h st))"
  shows "sorted (map (\<lambda>c. parsePrice (card_price c)) (responseCards (fst (respond v env q h st)))) \<and>
         0 \<le> parsePrice s \<and>
         (parseFloat (filter (\<lambda>c. isDigit c \<or> c = CHR ''.'') s) = None \<longrightarrow> parsePrice s = 0)"
proof (intro conjI impI)
  show "sorted (map (\<lambda>c. parsePrice (card_price c)) (responseCards (fst (respond v env q h st))))"
    unfolding respond_cards using assms by (rule processMatches_sorted)
  show "0 \<le> parsePrice s" by (rule parsePrice_nonneg)
  show "parsePrice s = 0" if "parseFloat (filter (\<lambda>c. isDigit c \<or> c = CHR ''.'') s) = None"
    using that by (rule parsePrice_malformed)
qed

theorem price_sort_nondecreasing_witness:
  "sort_by_price
     (fst (getUnderstanding (env_keywordMappings (exEnv exCheapThree))
             (env_geminiModel (exEnv exCheapThree)) ''three cheap lipsticks'' [] initialState)) \<and>
   sorted (map (\<lambda>c. parsePrice (card_price c))
             (responseCards (fst (respond Stateless (exEnv exCheapThree)
                ''three cheap lipsticks'' [] initialState)))) \<and>
   map card_price (responseCards (fst (respond Stateless (exEnv exCheapThree)
                ''three cheap lipsticks'' [] initialState))) = [''N/A'', ''$5.50'', ''$12.00''] \<and>
   parsePrice ''N/A'' = 0 \<and> parsePrice ''$5.50'' = 11 / 2 \<and> parsePrice ''$12.00'' = 12"
proof -
  have h: "sort_by_price
     (fst (getUnderstanding (env_keywordMappings (exEnv exCheapThree))
             (env_geminiModel (exEnv exCheapThree)) ''three cheap lipsticks'' [] initialState))"
    by code_simp
  have c: "map card_price (responseCards (fst (respond Stateless (exEnv exCheapThree)
                ''three cheap lipsticks'' [] initialState))) = [''N/A'', ''$5.50'', ''$12.00'']"
    by code_simp
  have p: "parsePrice ''N/A'' = 0 \<and> parsePrice ''$5.50'' = 11 / 2 \<and> parsePrice ''$12.00'' = 12"
    by code_simp
  from h c p price_sort_nondecreasing [OF h, of Stateless]
  show ?thesis by blast
qed

subsection \<open>Every accumulated match has passed the filter\<close>

text \<open>
  The matches a request accumulates all come out of \<open>performVectorQuery\<close>, so each has
  passed its filter predicate for some filter argument. The lemmas follow the stages, for
  any property \<open>P\<close> that the predicate implies.
\<close>

lemma set_sortByPrice: "set (sortByPrice rs) \<subseteq> set rs"
  by (auto simp: sortByPrice_def)

lemma performVectorQuery_all:
  assumes P: "\<And>flt r. passesFilter v km gr flt r \<Longrightarrow> P r"
    and q: "performVectorQuery v km idx gr t k flt st = (Some rs, st')"
  shows "\<forall>r \<in> set rs. P r"
proof -
  from q obtain results where
    rs: "rs = (let filtered = filter (passesFilter v km gr flt) results
               in if sort_by_price gr then sortByPrice filtered else filtered)"
    by (auto simp: performVectorQuery_def Let_def split: option.splits if_splits sum.splits)
  have "set rs \<subseteq> set (filter (passesFilter v km gr flt) results)"
    unfolding rs Let_def
    using set_sortByPrice [of "filter (passesFilter v km gr flt) results"]
    by (simp only: subset_refl split: if_split) simp
  then show ?thesis using P by auto
qed

lemma queryForType_cases:
  "\<exists>t flt s. queryForType v km idx gr tq pt st = performVectorQuery v km idx gr t (topK gr) flt s"
proof -
  let ?sk = "orElse (orElse (nullish (typeToKeywords km (toLowerCase pt))) (search_keywords gr)) tq"
  let ?f1 = "\<lparr>f_productType = Some pt, f_tags = Some pt, f_vendor = Some (vendor gr)\<rparr>"
  let ?f2 = "\<lparr>f_productType = None, f_tags = Some pt, f_vendor = Some (vendor gr)\<rparr>"
  obtain r1 st1 where q1: "performVectorQuery v km idx gr ?sk (topK gr) ?f1 st = (r1, st1)"
    by (cases "performVectorQuery v km idx gr ?sk (topK gr) ?f1 st") auto
  obtain r2 st2 where q2: "performVectorQuery v km idx gr ?sk (topK gr) ?f2 st1 = (r2, st2)"
    by (cases "performVectorQuery v km idx gr ?sk (topK gr) ?f2 st1") auto
  have "queryForType v km idx gr tq pt st =
          (if hasResults r1 then (r1, st1)
           else if hasResults r2 then (r2, st2)
           else performVectorQuery v km idx gr pt (topK gr) (vendorOnly gr) st2)"
    by (simp add: queryForType_def Let_def q1 q2)
  then show ?thesis using q1 q2 by (metis (full_types))
qed

lemma queryForType_all:
  assumes P: "\<And>flt r. passesFilter v km gr flt r \<Longrightarrow> P r"
    and q: "queryForType v km idx gr tq pt st = (Some rs, st')"
  shows "\<forall>r \<in> set rs. P r"
proof -
  from queryForType_cases [of v km idx gr tq pt st] q
  obtain t flt s where "performVectorQuery v km idx gr t (topK gr) flt s = (Some rs, st')"
    by auto
  with P show ?thesis by (rule performVectorQuery_all)
qed

lemma typePass_cases:
  assumes "typePass v km idx gr tq pt (tm, used, st) = (tm', used', st')"
  shows "(tm' = tm \<and> used' = used) \<or>
         (\<exists>rs t flt s s'. performVectorQuery v km idx gr t (topK gr) flt s = (Some rs, s') \<and>
            tm' = tm @ take (if sort_by_price gr then 4 else 1) (filter (\<lambda>r. qr_id r \<notin> used) rs) \<and>
            used' = used \<union> set (map qr_id (filter (\<lambda>r. qr_id r \<notin> used) rs)))"
proof -
  obtain res st1 where q: "queryForType v km idx gr tq pt st = (res, st1)"
    by (cases "queryForType v km idx gr tq pt st") auto
  show ?thesis
  proof (cases res)
    case None
    with q assms show ?thesis by (simp add: typePass_def)
  next
    case (Some rs)
    from queryForType_cases [of v km idx gr tq pt st] q Some
    obtain t flt s where p: "performVectorQuery v km idx gr t (topK gr) flt s = (Some rs, st1)"
      by auto
    show ?thesis
    proof (cases "rs = []")
      case True
      with q Some assms show ?thesis by (simp add: typePass_def)
    next
      case False
      with q Some assms have
        "tm' = tm @ take (if sort_by_price gr then 4 else 1) (filter (\<lambda>r. qr_id r \<notin> used) rs) \<and>
         used' = used \<union> set (map qr_id (filter (\<lambda>r. qr_id r \<notin> used) rs))"
        by (simp add: typePass_def Let_def)
      with p show ?thesis by blast
    qed
  qed
qed





lemma fallbackSearch_cases:
  "fst (fallbackSearch v km idx gr acc) = fst acc \<or>
   (\<exists>t flt s s'. performVectorQuery v km idx gr t (topK gr) flt s =
      (Some (fst (fallbackSearch v km idx gr acc)), s'))"
proof -
  obtain tm stg st where acc: "acc = (tm, stg, st)" by (cases acc) auto
  let ?fk = "orElse (orElse (joinStr '' '' (product_types gr)) (search_keywords gr)) ''beauty products''"
  obtain r1 st1 where q1:
    "performVectorQuery v km idx gr ?fk (topK gr) (vendorOnly gr) st = (r1, st1)"
    by (cases "performVectorQuery v km idx gr ?fk (topK gr) (vendorOnly gr) st") auto
  have "fst (fallbackSearch v km idx gr acc) = tm \<or>
        r1 = Some (fst (fallbackSearch v km idx gr acc))"
    by (auto simp: fallbackSearch_def acc q1 Let_def split: option.splits if_splits)
  with q1 acc show ?thesis by (metis fst_conv)
qed






subsection \<open>Attribute and price filters\<close>













subsection \<open>No record id twice in a multi-type result\<close>

lemma distinct_ids_filter:
  "distinct (map qr_id rs) \<Longrightarrow> distinct (map qr_id (filter P rs))"
  by (rule distinct_map_filter)

lemma distinct_ids_take:
  "distinct (map qr_id rs) \<Longrightarrow> distinct (map qr_id (take n rs))"
  by (simp add: take_map [symmetric])

lemma distinct_ids_sortByPrice:
  assumes "distinct (map qr_id rs)"
  shows "distinct (map qr_id (sortByPrice rs))"
proof -
  from assms have "distinct (map qr_id (filter (\<lambda>r. qr_metadata r \<noteq> None) rs))"
    by (rule distinct_ids_filter)
  then show ?thesis
    by (simp add: sortByPrice_def distinct_map)
qed

lemma performVectorQuery_distinct:
  assumes idx: "\<forall>query n t k rs. idx = Some query \<longrightarrow> query n t k = Inr rs \<longrightarrow> distinct (map qr_id rs)"
    and q: "performVectorQuery v km idx gr t k flt st = (Some rs, st')"
  shows "distinct (map qr_id rs)"
proof -
  from q obtain query results where
    i: "idx = Some query" and r: "query (length (calls st)) t k = Inr results" and
    rs: "rs = (if sort_by_price gr then sortByPrice (filter (passesFilter v km gr flt) results)
               else filter (passesFilter v km gr flt) results)"
    by (auto simp: performVectorQuery_def Let_def split: option.splits if_splits sum.splits)
  from idx i r have "distinct (map qr_id results)" by blast
  then have "distinct (map qr_id (filter (passesFilter v km gr flt) results))"
    by (rule distinct_ids_filter)
  then show ?thesis
    unfolding rs by (simp add: distinct_ids_sortByPrice)
qed

lemma typePass_distinct:
  assumes idx: "\<forall>query n t k rs. idx = Some query \<longrightarrow> query n t k = Inr rs \<longrightarrow> distinct (map qr_id rs)"
    and inv: "distinct (map qr_id tm) \<and> qr_id ` set tm \<subseteq> used"
    and r: "typePass v km idx gr tq pt (tm, used, st) = (tm', used', st')"
  shows "distinct (map qr_id tm') \<and> qr_id ` set tm' \<subseteq> used'"
  using typePass_cases [OF r]
proof
  assume "tm' = tm \<and> used' = used"
  with inv show ?thesis by simp
next
  assume "\<exists>rs t flt s s'. performVectorQuery v km idx gr t (topK gr) flt s = (Some rs, s') \<and>
            tm' = tm @ take (if sort_by_price gr then 4 else 1) (filter (\<lambda>r. qr_id r \<notin> used) rs) \<and>
            used' = used \<union> set (map qr_id (filter (\<lambda>r. qr_id r \<notin> used) rs))"
  then obtain rs t flt s s' where
    p: "performVectorQuery v km idx gr t (topK gr) flt s = (Some rs, s')" and
    t: "tm' = tm @ take (if sort_by_price gr then 4 else 1) (filter (\<lambda>r. qr_id r \<notin> used) rs)" and
    u: "used' = used \<union> set (map qr_id (filter (\<lambda>r. qr_id r \<notin> used) rs))"
    by blast
  define fresh where "fresh = filter (\<lambda>r. qr_id r \<notin> used) rs"
  define new where "new = take (if sort_by_price gr then 4 else 1) fresh"
  from idx p have "distinct (map qr_id rs)" by (rule performVectorQuery_distinct)
  then have "distinct (map qr_id fresh)"
    unfolding fresh_def by (rule distinct_ids_filter)
  then have d: "distinct (map qr_id new)"
    unfolding new_def by (rule distinct_ids_take)
  have f: "\<forall>r \<in> set fresh. qr_id r \<notin> used"
    by (simp add: fresh_def)
  have sub: "set new \<subseteq> set fresh"
    unfolding new_def by (rule set_take_subset)
  have t': "tm' = tm @ new" and u': "used' = used \<union> qr_id ` set fresh"
    by (simp_all only: t u new_def fresh_def set_map)
  from inv have su: "qr_id ` set tm \<subseteq> used" by simp
  have "qr_id ` set tm \<inter> qr_id ` set new = {}"
  proof (rule ccontr)
    assume "qr_id ` set tm \<inter> qr_id ` set new \<noteq> {}"
    then obtain x where x1: "x \<in> qr_id ` set tm" and x2: "x \<in> qr_id ` set new" by blast
    from x2 obtain r where "r \<in> set new" and xr: "x = qr_id r" by blast
    with sub have "r \<in> set fresh" by blast
    with f xr have "x \<notin> used" by simp
    with su x1 show False by blast
  qed
  with inv d have "distinct (map qr_id tm')"
    unfolding t' by simp
  moreover have "qr_id ` set tm' \<subseteq> used'"
  proof -
    have "qr_id ` set new \<subseteq> qr_id ` set fresh" using sub by (rule image_mono)
    with su show ?thesis unfolding t' u' by (simp add: image_Un) blast
  qed
  ultimately show ?thesis by simp
qed

lemma multiTypeLoop_distinct:
  assumes idx: "\<forall>query n t k rs. idx = Some query \<longrightarrow> query n t k = Inr rs \<longrightarrow> distinct (map qr_id rs)"
  shows "distinct (map qr_id (fst acc)) \<and> qr_id ` set (fst acc) \<subseteq> fst (snd acc) \<Longrightarrow>
         distinct (map qr_id (fst (multiTypeLoop v km idx gr tq pts acc)))"
proof (induction pts arbitrary: acc)
  case Nil
  then show ?case by simp
next
  case (Cons pt pts)
  obtain tm used st where acc: "acc = (tm, used, st)" by (cases acc) auto
  obtain tm' used' st' where r: "typePass v km idx gr tq pt (tm, used, st) = (tm', used', st')"
    by (cases "typePass v km idx gr tq pt (tm, used, st)") auto
  from Cons.prems acc have inv: "distinct (map qr_id tm) \<and> qr_id ` set tm \<subseteq> used" by simp
  from idx inv r have "distinct (map qr_id tm') \<and> qr_id ` set tm' \<subseteq> used'"
    by (rule typePass_distinct)
  then have "distinct (map qr_id (fst (multiTypeLoop v km idx gr tq pts (tm', used', st'))))"
    using Cons.IH [of "(tm', used', st')"] by simp
  with acc r show ?case by simp
qed

lemma fallbackSearch_distinct:
  assumes idx: "\<forall>query n t k rs. idx = Some query \<longrightarrow> query n t k = Inr rs \<longrightarrow> distinct (map qr_id rs)"
    and d: "distinct (map qr_id (fst acc))"
  shows "distinct (map qr_id (fst (fallbackSearch v km idx gr acc)))"
  using fallbackSearch_cases [of v km idx gr acc]
proof
  assume "fst (fallbackSearch v km idx gr acc) = fst acc"
  with d show ?thesis by simp
next
  assume "\<exists>t flt s s'. performVectorQuery v km idx gr t (topK gr) flt s =
      (Some (fst (fallbackSearch v km idx gr acc)), s')"
  then obtain t flt s s' where
    p: "performVectorQuery v km idx gr t (topK gr) flt s = (Some (fst (fallbackSearch v km idx gr acc)), s')"
    by blast
  from idx p show ?thesis by (rule performVectorQuery_distinct)
qed

lemma validMatches_distinct:
  assumes "distinct (map qr_id tm)"
  shows "distinct (map qr_id (validMatches gr tm))"
proof -
  from assms have "distinct (map qr_id (take (nat \<lfloor>requestedCount gr\<rfloor>) (filter validMetadata tm)))"
    by (intro distinct_ids_take distinct_ids_filter)
  then show ?thesis
    by (simp add: validMatches_def Let_def distinct_ids_sortByPrice)
qed

lemma typePass_skips_used:
  "\<exists>new. fst (typePass v km idx gr tq pt (tm, used, st)) = tm @ new \<and>
         list_all (\<lambda>r. qr_id r \<notin> used) new"
proof -
  obtain tm' used' st' where r: "typePass v km idx gr tq pt (tm, used, st) = (tm', used', st')"
    by (cases "typePass v km idx gr tq pt (tm, used, st)") auto
  from typePass_cases [OF r] show ?thesis
  proof
    assume "tm' = tm \<and> used' = used"
    with r show ?thesis by simp
  next
    assume "\<exists>rs t flt s s'. performVectorQuery v km idx gr t (topK gr) flt s = (Some rs, s') \<and>
            tm' = tm @ take (if sort_by_price gr then 4 else 1) (filter (\<lambda>r. qr_id r \<notin> used) rs) \<and>
            used' = used \<union> set (map qr_id (filter (\<lambda>r. qr_id r \<notin> used) rs))"
    then obtain rs where
      "tm' = tm @ take (if sort_by_price gr then 4 else 1) (filter (\<lambda>r. qr_id r \<notin> used) rs)"
      by blast
    moreover have "list_all (\<lambda>r. qr_id r \<notin> used)
        (take (if sort_by_price gr then 4 else 1) (filter (\<lambda>r. qr_id r \<notin> used) rs))"
      by (auto simp: list_all_iff dest: in_set_takeD)
    ultimately show ?thesis using r by simp
  qed
qed

text \<open>
  Claim C4, amended. In a request with product types, in both variants, each pass of the
  loop over the types appends only results whose id is not in \<open>usedProductIds\<close>, and
  that set holds the id of every match taken in an earlier pass. The matches that are
  returned carry pairwise different record ids provided the search engine lists no record
  id twice within one answer: the code removes no repetition inside the answer of one
  pass, nor inside the answer of the fallback query.
\<close>

theorem multi_type_result_distinct_ids:
  assumes "\<forall>query n t k rs. idx = Some query \<longrightarrow> query n t k = Inr rs \<longrightarrow> distinct (map qr_id rs)"
    and "length (product_types gr) > 0"
  shows "distinct (map qr_id (validMatches gr (fst (searchStage v km idx gr q st)))) \<and>
         (\<exists>new. fst (typePass v km idx gr q pt (tm, used, st1)) = tm @ new \<and>
                 list_all (\<lambda>r. qr_id r \<notin> used) new) \<and>
         (distinct (map qr_id tm) \<and> qr_id ` set tm \<subseteq> used \<longrightarrow>
            distinct (map qr_id (fst (typePass v km idx gr q pt (tm, used, st1)))) \<and>
            qr_id ` set (fst (typePass v km idx gr q pt (tm, used, st1)))
              \<subseteq> fst (snd (typePass v km idx gr q pt (tm, used, st1))))"
proof (intro conjI impI)
  have e: "distinct (map qr_id (fst ([], {}, st))) \<and>
           qr_id ` set (fst ([], {}, st)) \<subseteq> fst (snd ([], {}, st))"
    by simp
  from assms(1) e
  have "distinct (map qr_id (fst (multiTypeLoop v km idx gr q (product_types gr) ([], {}, st))))"
    by (rule multiTypeLoop_distinct)
  moreover obtain a b c where "multiTypeLoop v km idx gr q (product_types gr) ([], {}, st) = (a, b, c)"
    by (cases "multiTypeLoop v km idx gr q (product_types gr) ([], {}, st)") auto
  ultimately have "distinct (map qr_id (fst
      (case multiTypeLoop v km idx gr q (product_types gr) ([], {}, st) of
         (topMatches, usedProductIds, st1) \<Rightarrow> (topMatches, MultiTypeQuery, st1))))"
    by simp
  with assms(1) have "distinct (map qr_id (fst (fallbackSearch v km idx gr
      (case multiTypeLoop v km idx gr q (product_types gr) ([], {}, st) of
         (topMatches, usedProductIds, st1) \<Rightarrow> (topMatches, MultiTypeQuery, st1)))))"
    by (rule fallbackSearch_distinct)
  with assms(2) have "distinct (map qr_id (fst (searchStage v km idx gr q st)))"
    by (simp add: searchStage_def)
  then show "distinct (map qr_id (validMatches gr (fst (searchStage v km idx gr q st))))"
    by (rule validMatches_distinct)
next
  show "\<exists>new. fst (typePass v km idx gr q pt (tm, used, st1)) = tm @ new \<and>
              list_all (\<lambda>r. qr_id r \<notin> used) new"
    by (rule typePass_skips_used)
next
  assume inv: "distinct (map qr_id tm) \<and> qr_id ` set tm \<subseteq> used"
  obtain tm' used' st' where r: "typePass v km idx gr q pt (tm, used, st1) = (tm', used', st')"
    by (cases "typePass v km idx gr q pt (tm, used, st1)") auto
  from assms(1) inv r have "distinct (map qr_id tm') \<and> qr_id ` set tm' \<subseteq> used'"
    by (rule typePass_distinct)
  with r show "distinct (map qr_id (fst (typePass v km idx gr q pt (tm, used, st1))))"
    and "qr_id ` set (fst (typePass v km idx gr q pt (tm, used, st1)))
              \<subseteq> fst (snd (typePass v km idx gr q pt (tm, used, st1)))"
    by simp_all
qed

theorem multi_type_result_distinct_ids_witness:
  "distinct (map qr_id exRoutineCatalogue) \<and>
   length (product_types exRoutine) > 0 \<and>
   map qr_id (validMatches exRoutine
     (fst (searchStage Stateless exMappings (Some (\<lambda>n t k. Inr exRoutineCatalogue)) exRoutine
             ''cleanser and moisturizer'' initialState))) = [''x1'', ''x3''] \<and>
   distinct (map qr_id (validMatches exRoutine
     (fst (searchStage Stateless exMappings (Some (\<lambda>n t k. Inr exRoutineCatalogue)) exRoutine
             ''cleanser and moisturizer'' initialState))))"
proof -
  have d: "distinct (map qr_id exRoutineCatalogue)" by code_simp
  then have i: "\<forall>query n t k rs. Some (\<lambda>n t k. Inr exRoutineCatalogue) = Some query \<longrightarrow>
      query n t k = Inr rs \<longrightarrow> distinct (map qr_id rs)"
    by auto
  have p: "length (product_types exRoutine) > 0" by (simp add: exRoutine_def)
  have v: "map qr_id (validMatches exRoutine
     (fst (searchStage Stateless exMappings (Some (\<lambda>n t k. Inr exRoutineCatalogue)) exRoutine
             ''cleanser and moisturizer'' initialState))) = [''x1'', ''x3'']"
    by code_simp
  from multi_type_result_distinct_ids [OF i p, of Stateless exMappings "''cleanser and moisturizer''" initialState]
    d p v
  show ?thesis by blast
qed

text \<open>
  As first stated, for every request with product types, the property fails when an answer
  of the search engine lists a record twice. With \<open>sort_by_price\<close> one pass takes up to
  four results of its answer, the repeated one among them; and when no match reaches the
  threshold the fallback answer replaces the matches as it is.
\<close>

theorem duplicate_ids_counterexample:
  "length (product_types (exRoutine\<lparr>sort_by_price := True\<rparr>)) > 0 \<and>
   map qr_id (validMatches (exRoutine\<lparr>sort_by_price := True\<rparr>)
     (fst (searchStage Stateless exMappings (exDuplicateIndex 2)
             (exRoutine\<lparr>sort_by_price := True\<rparr>) ''cleanser and moisturizer'' initialState))) =
     [''d1'', ''d1''] \<and>
   length (product_types exRoutine) > 0 \<and>
   fst (snd (searchStage WithHistory exMappings (exDuplicateIndex (1 / 10)) exRoutine
               ''cleanser and moisturizer'' initialState)) = FallbackRelatedProducts \<and>
   map qr_id (validMatches exRoutine
     (fst (searchStage WithHistory exMappings (exDuplicateIndex (1 / 10)) exRoutine
             ''cleanser and moisturizer'' initialState))) = [''d1'', ''d1''] \<and>
   \<not> distinct [''d1'', ''d1'']"
proof -
  have t: "length (product_types (exRoutine\<lparr>sort_by_price := True\<rparr>)) > 0 \<and>
      length (product_types exRoutine) > 0"
    by (simp add: exRoutine_def)
  have s: "map qr_id (validMatches (exRoutine\<lparr>sort_by_price := True\<rparr>)
     (fst (searchStage Stateless exMappings (exDuplicateIndex 2)
             (exRoutine\<lparr>sort_by_price := True\<rparr>) ''cleanser and moisturizer'' initialState))) =
     [''d1'', ''d1'']"
    by code_simp
  have g: "fst (snd (searchStage WithHistory exMappings (exDuplicateIndex (1 / 10)) exRoutine
               ''cleanser and moisturizer'' initialState)) = FallbackRelatedProducts"
    by code_simp
  have f: "map qr_id (validMatches exRoutine
     (fst (searchStage WithHistory exMappings (exDuplicateIndex (1 / 10)) exRoutine
             ''cleanser and moisturizer'' initialState))) = [''d1'', ''d1'']"
    by code_simp
  have d: "\<not> distinct [''d1'', ''d1'']" by simp
  from t s g f d show ?thesis by blast
qed

subsection \<open>The requested count of a request with product types\<close>

lemma adjustCount_product_types:
  "length (product_types parsed) > 0 \<Longrightarrow>
   adjustCount km q parsed =
     parsed\<lparr>requested_product_count := of_nat (length (product_types parsed))\<rparr>"
  by (simp add: adjustCount_def Let_def)

lemma adjustCount_top4_without_types:
  assumes "product_types parsed = []"
  shows "requested_product_count (adjustCount km ''top 4 cheapest lipsticks'' parsed) = 4"
proof -
  have l: "toLowerCase ''top 4 cheapest lipsticks'' = ''top 4 cheapest lipsticks''"
    by code_simp
  have "\<not> includesStr ''top 4 cheapest lipsticks'' ''set''"
    and "\<not> includesStr ''top 4 cheapest lipsticks'' ''combo''"
    and "includesStr ''top 4 cheapest lipsticks'' ''top 4 cheapest''"
    by code_simp+
  with assms l show ?thesis by (simp add: adjustCount_def Let_def)
qed

lemma processMatches_length:
  "length (fst (processMatches v gr acc)) \<le> nat \<lfloor>requestedCount gr\<rfloor>"
proof -
  obtain tm stg st where acc: "acc = (tm, stg, st)" by (cases acc) auto
  have t: "length (take (nat \<lfloor>requestedCount gr\<rfloor>) (filter validMetadata tm))
             \<le> nat \<lfloor>requestedCount gr\<rfloor>"
    by simp
  have "length (filter P (take (nat \<lfloor>requestedCount gr\<rfloor>) (filter validMetadata tm)))
             \<le> nat \<lfloor>requestedCount gr\<rfloor>" for P
    by (rule order_trans [OF length_filter_le t])
  with t have "length (validMatches gr tm) \<le> nat \<lfloor>requestedCount gr\<rfloor>"
    by (simp add: validMatches_def Let_def sortByPrice_def del: length_take)
  moreover have "length (filter P (validMatches gr tm)) \<le> length (validMatches gr tm)" for P
    by (rule length_filter_le)
  ultimately show ?thesis
    unfolding acc processMatches_cards
    by (auto simp only: length_map split: if_split intro: order_trans)
qed

text \<open>
  Claim C2, evaluated on the code. For \<open>top 4 cheapest lipsticks\<close> the language model
  is asked to reply with \<open>requested_product_count = 4\<close>, \<open>product_types = [lipstick]\<close>
  and \<open>sort_by_price = true\<close>. The adjustment tests \<open>product_types.length > 0\<close> before
  it tests for \<open>top 4 cheapest\<close>, so the count of the derived intent is the number of
  types, 1; the loop over the types still collects four lipsticks, and the cut to
  \<open>requestedCount\<close> leaves one card, in both variants.
\<close>

theorem top_4_cheapest_count_is_one:
  "requested_product_count (adjustCount km ''top 4 cheapest lipsticks'' exCheapest) = 1 \<and>
   product_types (adjustCount km ''top 4 cheapest lipsticks'' exCheapest) = [''lipstick''] \<and>
   sort_by_price (adjustCount km ''top 4 cheapest lipsticks'' exCheapest) \<and>
   requestedCount (adjustCount km ''top 4 cheapest lipsticks'' exCheapest) = 1 \<and>
   length (fst (processMatches v (adjustCount km ''top 4 cheapest lipsticks'' exCheapest) acc)) \<le> 1 \<and>
   map qr_id (fst (searchStage Stateless exMappings (env_vectorIndex (exEnv exCheapest))
          (adjustCount exMappings ''top 4 cheapest lipsticks'' exCheapest)
          ''top 4 cheapest lipsticks'' initialState)) = [''p3'', ''p2'', ''p1'', ''p4''] \<and>
   map card_title (responseCards (fst (respond Stateless (exEnv exCheapest)
          ''top 4 cheapest lipsticks'' [] initialState))) = [''Nude Lipstick''] \<and>
   map card_title (responseCards (fst (respond WithHistory (exEnv exCheapest)
          ''top 4 cheapest lipsticks'' [] initialState))) = [''Nude Lipstick'']"
proof -
  have pt: "length (product_types exCheapest) > 0" by (simp add: exCheapest_def)
  have a: "adjustCount km ''top 4 cheapest lipsticks'' exCheapest =
             exCheapest\<lparr>requested_product_count := 1\<rparr>"
    using adjustCount_product_types [OF pt, of km "''top 4 cheapest lipsticks''"]
    by (simp add: exCheapest_def)
  have c: "requestedCount (exCheapest\<lparr>requested_product_count := 1\<rparr>) = 1"
    by (simp add: requestedCount_def numOr_def)
  have l: "length (fst (processMatches v (exCheapest\<lparr>requested_product_count := 1\<rparr>) acc)) \<le> 1"
    using processMatches_length [of v "exCheapest\<lparr>requested_product_count := 1\<rparr>" acc]
    by (simp add: c)
  have s: "map qr_id (fst (searchStage Stateless exMappings (env_vectorIndex (exEnv exCheapest))
          (adjustCount exMappings ''top 4 cheapest lipsticks'' exCheapest)
          ''top 4 cheapest lipsticks'' initialState)) = [''p3'', ''p2'', ''p1'', ''p4'']"
    by code_simp
  have r1: "map card_title (responseCards (fst (respond Stateless (exEnv exCheapest)
          ''top 4 cheapest lipsticks'' [] initialState))) = [''Nude Lipstick'']"
    by code_simp
  have r2: "map card_title (responseCards (fst (respond WithHistory (exEnv exCheapest)
          ''top 4 cheapest lipsticks'' [] initialState))) = [''Nude Lipstick'']"
    by code_simp
  show ?thesis
    unfolding a using c l s [unfolded a] r1 r2 by (simp add: exCheapest_def)
qed

subsection \<open>The type and tag filters\<close>

lemma includesStr_iff_sublist: "includesStr s sub \<longleftrightarrow> sublist sub s"
  by (induction s) (simp_all add: sublist_Cons_right)

text \<open>The stateless variant matches type and tags as a multi-field disjunction.\<close>

lemma typeMatch_Stateless_iff:
  assumes "truthy (f_productType flt)"
  shows "typeMatch Stateless km flt md \<longleftrightarrow>
    (\<exists>s \<in> set (toLowerCase (nullish (f_productType flt)) #
                 (case synonyms km (toLowerCase (nullish (f_productType flt))) of
                    Some l \<Rightarrow> l | None \<Rightarrow> [])).
       includesStr (normalizedType md) s \<or>
       includesStr (toLowerCase (nullish (md_tags md))) s \<or>
       includesStr (toLowerCase (strOf (md_title md))) s)"
  using assms by (auto simp: typeMatch_def Let_def list_ex_iff)

lemma tagMatch_Stateless_iff:
  assumes "truthy (f_tags flt)"
  shows "tagMatch Stateless flt md \<longleftrightarrow>
    (\<exists>w \<in> set (splitStr (CHR '' '') (toLowerCase (nullish (f_tags flt)))).
       includesStr (toLowerCase (nullish (md_tags md))) w \<or>
       includesStr (toLowerCase (strOf (md_title md))) w)"
  using assms by (simp add: tagMatch_def Let_def list_ex_iff)

text \<open>The history variant matches the type on the normalized type alone and no tags.\<close>

lemma typeMatch_WithHistory_iff:
  assumes "truthy (f_productType flt)"
  shows "typeMatch WithHistory km flt md \<longleftrightarrow>
    includesStr (normalizedType md) (toLowerCase (nullish (f_productType flt)))"
  using assms by (simp add: typeMatch_def Let_def)

lemma tagMatch_WithHistory: "tagMatch WithHistory flt md"
  by (simp add: tagMatch_def)

text \<open>
  Claim C6, evaluated on the code. The stateless variant does what the claim says. The
  history variant does not: with the type filter \<open>lipstick\<close> it rejects a record of type
  \<open>Makeup\<close> whose title and tags contain \<open>lipstick\<close>, since it looks at the normalized
  type alone; and its \<open>tagMatch\<close> is the constant \<open>true\<close>, so with the tag filter
  \<open>lipstick\<close> a shampoo whose tags and title hold no token of the filter passes and is
  returned by \<open>performVectorQuery\<close>.
\<close>

theorem history_variant_ignores_tags_and_title:
  "\<not> typeMatch WithHistory exMappings (exFilter ''lipstick'')
       (exMeta ''p2'' ''Pink Lipstick'' ''$5.50'' ''Makeup'' ''lipstick'') \<and>
   includesStr (toLowerCase (strOf (md_title
       (exMeta ''p2'' ''Pink Lipstick'' ''$5.50'' ''Makeup'' ''lipstick''))))
     (toLowerCase ''lipstick'') \<and>
   includesStr (toLowerCase (nullish (md_tags
       (exMeta ''p2'' ''Pink Lipstick'' ''$5.50'' ''Makeup'' ''lipstick''))))
     (toLowerCase ''lipstick'') \<and>
   typeMatch Stateless exMappings (exFilter ''lipstick'')
       (exMeta ''p2'' ''Pink Lipstick'' ''$5.50'' ''Makeup'' ''lipstick'') \<and>
   tagMatch WithHistory (exFilter ''lipstick'') (exMeta ''p9'' ''Shampoo'' ''$5'' ''Hair'' ''hair'') \<and>
   splitStr (CHR '' '') (toLowerCase ''lipstick'') = [''lipstick''] \<and>
   \<not> includesStr (toLowerCase (nullish (md_tags (exMeta ''p9'' ''Shampoo'' ''$5'' ''Hair'' ''hair''))))
       ''lipstick'' \<and>
   \<not> includesStr (toLowerCase (strOf (md_title (exMeta ''p9'' ''Shampoo'' ''$5'' ''Hair'' ''hair''))))
       ''lipstick'' \<and>
   \<not> tagMatch Stateless (exFilter ''lipstick'') (exMeta ''p9'' ''Shampoo'' ''$5'' ''Hair'' ''hair'') \<and>
   fst (performVectorQuery WithHistory exMappings
          (Some (\<lambda>n t k. Inr [exResult ''p9'' 2 ''Shampoo'' ''$5'' ''Hair'' ''hair'']))
          defaultGeminiResult ''lipstick'' 10
          \<lparr>f_productType = None, f_tags = Some ''lipstick'', f_vendor = Some []\<rparr> initialState) =
     Some [exResult ''p9'' 2 ''Shampoo'' ''$5'' ''Hair'' ''hair''] \<and>
   fst (performVectorQuery Stateless exMappings
          (Some (\<lambda>n t k. Inr [exResult ''p9'' 2 ''Shampoo'' ''$5'' ''Hair'' ''hair'']))
          defaultGeminiResult ''lipstick'' 10
          \<lparr>f_productType = None, f_tags = Some ''lipstick'', f_vendor = Some []\<rparr> initialState) =
     None"
proof -
  let ?lipstick = "exMeta ''p2'' ''Pink Lipstick'' ''$5.50'' ''Makeup'' ''lipstick''"
  let ?shampoo = "exMeta ''p9'' ''Shampoo'' ''$5'' ''Hair'' ''hair''"
  have type_history: "\<not> typeMatch WithHistory exMappings (exFilter ''lipstick'') ?lipstick"
    by code_simp
  have fields: "includesStr (toLowerCase (strOf (md_title ?lipstick))) (toLowerCase ''lipstick'') \<and>
      includesStr (toLowerCase (nullish (md_tags ?lipstick))) (toLowerCase ''lipstick'')"
    by code_simp
  have type_stateless: "typeMatch Stateless exMappings (exFilter ''lipstick'') ?lipstick"
    by code_simp
  have tag_history: "tagMatch WithHistory (exFilter ''lipstick'') ?shampoo"
    by (rule tagMatch_WithHistory)
  have tokens: "splitStr (CHR '' '') (toLowerCase ''lipstick'') = [''lipstick'']"
    by code_simp
  have absent: "\<not> includesStr (toLowerCase (nullish (md_tags ?shampoo))) ''lipstick'' \<and>
      \<not> includesStr (toLowerCase (strOf (md_title ?shampoo))) ''lipstick''"
    by code_simp
  have tag_stateless: "\<not> tagMatch Stateless (exFilter ''lipstick'') ?shampoo"
    by code_simp
  have query_history: "fst (performVectorQuery WithHistory exMappings
          (Some (\<lambda>n t k. Inr [exResult ''p9'' 2 ''Shampoo'' ''$5'' ''Hair'' ''hair'']))
          defaultGeminiResult ''lipstick'' 10
          \<lparr>f_productType = None, f_tags = Some ''lipstick'', f_vendor = Some []\<rparr> initialState) =
     Some [exResult ''p9'' 2 ''Shampoo'' ''$5'' ''Hair'' ''hair'']"
    by code_simp
  have query_stateless: "fst (performVectorQuery Stateless exMappings
          (Some (\<lambda>n t k. Inr [exResult ''p9'' 2 ''Shampoo'' ''$5'' ''Hair'' ''hair'']))
          defaultGeminiResult ''lipstick'' 10
          \<lparr>f_productType = None, f_tags = Some ''lipstick'', f_vendor = Some []\<rparr> initialState) =
     None"
    by code_simp
  from type_history fields type_stateless tag_history tokens absent tag_stateless
    query_history query_stateless
  show ?thesis by blast
qed

subsection \<open>The cap on the stored history\<close>

lemma sliceFrom_negative:
  "0 < m \<Longrightarrow> sliceFrom (- m) xs = lastN (nat m) xs"
  by (simp add: sliceFrom_def lastN_def nat_diff_distrib')

lemma limitHistory_positive:
  assumes "parseInt10 (orElse (nullish envMax) ''10'') = Some m" and "0 < m"
  shows "limitHistory envMax history = lastN (nat m) history"
    and "length (limitHistory envMax history) \<le> nat m"
proof -
  show e: "limitHistory envMax history = lastN (nat m) history"
  proof (cases "int (length history) > m")
    case True
    with assms show ?thesis by (simp add: limitHistory_def sliceFrom_negative)
  next
    case False
    with assms show ?thesis by (simp add: limitHistory_def lastN_def)
  qed
  show "length (limitHistory envMax history) \<le> nat m"
    unfolding e using assms(2) by (simp add: lastN_def)
qed

lemma parseInt10_default: "parseInt10 (orElse (nullish None) ''10'') = Some 10"
  by code_simp

lemma limitHistory_default:
  "limitHistory None history = lastN 10 history"
  "length (limitHistory None history) \<le> 10"
  using limitHistory_positive [OF parseInt10_default, of history] by simp_all

lemma parseInt10_zero: "parseInt10 (orElse (nullish (Some ''0'')) ''10'') = Some 0"
  by code_simp

lemma limitHistory_zero: "limitHistory (Some ''0'') history = history"
  by (simp add: limitHistory_def parseInt10_zero sliceFrom_def)

lemma respond_stores_history:
  "last (calls (snd (respond WithHistory (env\<lparr>env_redis := Some g\<rparr>) q h st))) =
     HistoryWrite
       (limitHistory (env_MAX_CHAT_HISTORY env)
          (h @ [\<lparr>msg_role = User, msg_text = Some q\<rparr>,
                \<lparr>msg_role = Bot,
                 msg_text = Some (resp_advice
                   (fst (respond WithHistory (env\<lparr>env_redis := Some g\<rparr>) q h st)))\<rparr>]))
       (60 * 60 * 24)"
  by (simp add: respond_def Let_def storeHistory_def split: prod.splits)

text \<open>
  Claim C9, evaluated on the code. With a positive maximum the stored history is the last
  \<open>maxHistory\<close> entries of the history with the two new turns (lemma
  \<open>limitHistory_positive\<close>; 10 by default). With \<open>MAX_CHAT_HISTORY = 0\<close> the test
  \<open>history.length > maxHistory\<close> holds and \<open>history.slice(-0)\<close> is the whole array: the
  history is stored uncut, with the two new turns, under a time-to-live of one day.
\<close>

theorem history_not_capped_at_zero:
  "parseInt10 ''0'' = Some 0 \<and>
   limitHistory (Some ''0'') history = history \<and>
   last (calls (snd (respond WithHistory
           (env\<lparr>env_MAX_CHAT_HISTORY := Some ''0'', env_redis := Some g\<rparr>) q h st))) =
     HistoryWrite
       (h @ [\<lparr>msg_role = User, msg_text = Some q\<rparr>,
             \<lparr>msg_role = Bot,
              msg_text = Some (resp_advice (fst (respond WithHistory
                (env\<lparr>env_MAX_CHAT_HISTORY := Some ''0'', env_redis := Some g\<rparr>) q h st)))\<rparr>])
       86400"
proof -
  have p: "parseInt10 ''0'' = Some 0" by code_simp
  have "last (calls (snd (respond WithHistory
           (env\<lparr>env_MAX_CHAT_HISTORY := Some ''0'', env_redis := Some g\<rparr>) q h st))) =
     HistoryWrite
       (h @ [\<lparr>msg_role = User, msg_text = Some q\<rparr>,
             \<lparr>msg_role = Bot,
              msg_text = Some (resp_advice (fst (respond WithHistory
                (env\<lparr>env_MAX_CHAT_HISTORY := Some ''0'', env_redis := Some g\<rparr>) q h st)))\<rparr>])
       86400"
    using respond_stores_history
      [where env = "env\<lparr>env_MAX_CHAT_HISTORY := Some ''0''\<rparr>" and g = g and q = q and h = h and st = st]
    by (simp add: limitHistory_zero)
  then show ?thesis using p limitHistory_zero [of history] by simp
qed

subsection \<open>A request while every dependency is down\<close>

text \<open>
  The stateless variant with a language model and a search engine that throw on every
  call: the response has status 200, the default understanding and advice, the note that
  no product was found, and no product card.
\<close>

lemma trim_hi: "trim ''hi'' = ''hi''"
  by code_simp

lemma trim_beauty: "trim ''beauty products'' \<noteq> []"
  by code_simp

lemma all_dependencies_down:
  "fst (POST Stateless exEnvDown (Inr (exBody (JString ''hi'')))) =
     ChatJson
       \<lparr>resp_ai_understanding = ''Unable to interpret query intent.'',
        resp_product_card = None,
        resp_advice = ''Sorry, I had trouble understanding your request.'' @ [CHR 0x0A, CHR 0x0A] @
                      defaultUsageText @ notFoundNote,
        resp_complementary_products = None,
        resp_history = None\<rparr> 200"
proof -
  have g: "getUnderstanding exMappings (Some (\<lambda>q h. CallFailed)) ''hi'' [] initialState =
        (defaultGeminiResult, initialState\<lparr>calls := [LLMCall]\<rparr>)"
    by (simp add: getUnderstanding_def initialState_def)
  have k: "topK defaultGeminiResult = 10"
    by (simp add: topK_def requestedCount_def numOr_def defaultGeminiResult_def)
  have q: "performVectorQuery Stateless exMappings (Some (\<lambda>n t k. Inl ''unavailable''))
             defaultGeminiResult t 10 flt st =
           (if t = [] \<or> trim t = [] then (None, st)
            else (None, st\<lparr>calls := calls st @ [SearchCall t 10], searchNote := issueNote\<rparr>))" for t flt st
    by (simp add: performVectorQuery_def Let_def)
  have s: "fst (searchStage Stateless exMappings (Some (\<lambda>n t k. Inl ''unavailable''))
             defaultGeminiResult ''hi'' st) = []" for st
  proof -
    have d: "search_keywords defaultGeminiResult = []" "product_types defaultGeminiResult = []"
      "requestedCount defaultGeminiResult = 1"
      by (simp_all add: defaultGeminiResult_def requestedCount_def numOr_def)
    show ?thesis
      using trim_hi trim_beauty
      by (simp add: searchStage_def singleIntentPath_def fallbackSearch_def q k d Let_def
          orElse_def aboveThreshold_def)
  qed
  obtain a b c where t: "searchStage Stateless exMappings (Some (\<lambda>n t k. Inl ''unavailable''))
             defaultGeminiResult ''hi'' (initialState\<lparr>calls := [LLMCall]\<rparr>) = (a, b, c)"
    by (metis prod_cases3)
  with s [of "initialState\<lparr>calls := [LLMCall]\<rparr>"] have a: "a = []" by simp
  have "fst (respond Stateless exEnvDown ''hi'' [] initialState) =
       \<lparr>resp_ai_understanding = ''Unable to interpret query intent.'',
        resp_product_card = None,
        resp_advice = ''Sorry, I had trouble understanding your request.'' @ [CHR 0x0A, CHR 0x0A] @
                      defaultUsageText @ notFoundNote,
        resp_complementary_products = None,
        resp_history = None\<rparr>"
    by (simp add: respond_def exEnvDown_def g t a processMatches_def finalResponse_def Let_def
        orElse_def nullish_def)
      (simp add: defaultGeminiResult_def)
  moreover obtain r st' where r: "respond Stateless exEnvDown ''hi'' [] initialState = (r, st')"
    by (cases "respond Stateless exEnvDown ''hi'' [] initialState") auto
  moreover have "\<not> invalidQuery (b_query (exBody (JString ''hi'')))"
    and "trim (strOf (b_query (exBody (JString ''hi'')))) = ''hi''"
    and "b_history (exBody (JString ''hi'')) = Some []"
    by (simp_all add: exBody_def trim_hi)
  ultimately show ?thesis
    by (simp add: POST_def Let_def)
qed

end
